theory Spec2Isabelle
  imports Complex_Main
begin

section \<open>Python values used by the sources\<close>

text \<open>
  The sources are Python 2 (\<^verbatim>\<open>from __future__ import print_function\<close>): a line read from
  a pipe is a \<^verbatim>\<open>str\<close>, modelled as \<^typ>\<open>string\<close>. An argument that may be \<^verbatim>\<open>None\<close> is an
  option; \<^verbatim>\<open>if x:\<close> on such a value is Python's truth test.
\<close>

definition truthy_str :: "string option \<Rightarrow> bool" where
  "truthy_str x = (case x of None \<Rightarrow> False | Some s \<Rightarrow> s \<noteq> [])"

text \<open>\<^verbatim>\<open>a or b\<close> on optional strings: \<^verbatim>\<open>a\<close> when it is truthy, else \<^verbatim>\<open>b\<close>.\<close>

definition py_or :: "string option \<Rightarrow> string option \<Rightarrow> string option" where
  "py_or a b = (if truthy_str a then a else b)"

text \<open>\<^verbatim>\<open>"%s" % x\<close>: the string itself, or the text \<^verbatim>\<open>None\<close>.\<close>

definition fmt_s :: "string option \<Rightarrow> string" where
  "fmt_s x = (case x of None \<Rightarrow> ''None'' | Some s \<Rightarrow> s)"

text \<open>\<^verbatim>\<open>sep.join(xs)\<close> on a list of strings.\<close>

fun join :: "string \<Rightarrow> string list \<Rightarrow> string" where
  "join sep [] = []"
| "join sep [x] = x"
| "join sep (x # y # ys) = x @ sep @ join sep (y # ys)"

text \<open>\<^verbatim>\<open>s.strip()\<close>: leading and trailing whitespace (\<^verbatim>\<open>string.whitespace\<close>) removed.\<close>

definition isspace :: "char \<Rightarrow> bool" where
  "isspace ch = (ch \<in> set [CHR '' '', CHR 0x09, CHR 0x0A, CHR 0x0B, CHR 0x0C, CHR 0x0D])"

definition strip :: "string \<Rightarrow> string" where
  "strip s = rev (dropWhile isspace (rev (dropWhile isspace s)))"

section \<open>Errors\<close>

text \<open>
  Every exception the modelled functions raise is a value. \<open>TypeError\<close> is the built-in
  one that \<^verbatim>\<open>" ".join\<close> raises on a list holding \<^verbatim>\<open>None\<close>. \<open>RetriesExhausted\<close> belongs
  to the retry engine, which is modelled from the specification (see below).
\<close>

datatype error =
    DeviceConnectionError string
  | CalledProcessError int string
  | UnknownType string
  | UnsupportedInstanceImageType string
  | TypeError
  | RetriesExhausted nat

section \<open>Names imported from modules that are not among the sources\<close>

text \<open>
  \<^verbatim>\<open>acloud/internal/constants.py\<close> and \<^verbatim>\<open>acloud/internal/lib/utils.py\<close> are not among the
  sources. The constants the modelled functions read from them are parameters of the
  model, collected in one record that every function takes as its first argument.
\<close>

record constants =
  SSH_BIN :: string
  SCP_BIN :: string
  INSTANCE_TYPE_REMOTE :: string
  INSTANCE_TYPE_LOCAL :: string
  IMAGE_SRC_LOCAL :: string
  IMAGE_SRC_REMOTE :: string
  DEFAULT_RETRY_BACKOFF_FACTOR :: real

text \<open>
  One instance, with the values the docstrings of \<^verbatim>\<open>GetBaseCmd\<close> and
  \<^verbatim>\<open>GetAvdCreatorClass\<close> mention; it is used for concrete evaluations only.
\<close>

definition example_constants :: constants where
  "example_constants =
     \<lparr>SSH_BIN = ''ssh'', SCP_BIN = ''scp'',
      INSTANCE_TYPE_REMOTE = ''remote'', INSTANCE_TYPE_LOCAL = ''local'',
      IMAGE_SRC_LOCAL = ''local'', IMAGE_SRC_REMOTE = ''remote'',
      DEFAULT_RETRY_BACKOFF_FACTOR = 1\<rparr>"

section \<open>create.py: choosing the creator class\<close>

datatype creator_class =
    LocalImageRemoteInstance
  | LocalImageLocalInstance
  | RemoteImageRemoteInstance
  | RemoteImageLocalInstance

definition GetAvdCreatorClass ::
    "constants \<Rightarrow> string \<Rightarrow> string \<Rightarrow> error + creator_class" where
  "GetAvdCreatorClass c instance_type image_source =
     (if instance_type = INSTANCE_TYPE_REMOTE c \<and> image_source = IMAGE_SRC_LOCAL c
        then Inr LocalImageRemoteInstance
      else if instance_type = INSTANCE_TYPE_LOCAL c \<and> image_source = IMAGE_SRC_LOCAL c
        then Inr LocalImageLocalInstance
      else if instance_type = INSTANCE_TYPE_REMOTE c \<and> image_source = IMAGE_SRC_REMOTE c
        then Inr RemoteImageRemoteInstance
      else if instance_type = INSTANCE_TYPE_LOCAL c \<and> image_source = IMAGE_SRC_REMOTE c
        then Inr RemoteImageLocalInstance
      else Inl (UnsupportedInstanceImageType
             (''unsupported creation of instance type: '' @ instance_type @
              '', image source: '' @ image_source)))"

section \<open>ssh.py: the environment\<close>

text \<open>
  What the code does to the outside world is recorded in a state that every function
  takes and returns:
  \<^item> \<open>installed\<close>: the executables \<^verbatim>\<open>find_executable\<close> finds, name to path;
  \<^item> \<open>pending\<close>: the behaviour of the processes that the next calls of
    \<^verbatim>\<open>subprocess.Popen\<close> start, in order;
  \<^item> \<open>popen_calls\<close>: the command lines given to \<^verbatim>\<open>subprocess.Popen\<close>, oldest first;
  \<^item> \<open>timers\<close>: the intervals of the \<^verbatim>\<open>threading.Timer\<close>s started;
  \<^item> \<open>printed\<close>, \<open>debug_log\<close>, \<open>info_log\<close>: the lines given to \<^verbatim>\<open>print\<close>,
    \<^verbatim>\<open>logger.debug\<close> and \<^verbatim>\<open>logger.info\<close>;
  \<^item> \<open>sleeps\<close>: the durations given to \<^verbatim>\<open>time.sleep\<close>.

  An observation is what the reading loop sees at one iteration: the line
  \<^verbatim>\<open>process.stdout.readline()\<close> returns (the empty string at end of file) and what
  \<^verbatim>\<open>process.poll()\<close> would return then (\<open>None\<close> while the process runs, its return code
  once it has exited). A list of observations that ends without an exit is a process
  that is still running when the observations end.

  A process is described by what the loop observes of it: \<open>alone\<close> when no timer has been
  started, and \<open>under_timer t\<close> when a timer of \<open>t\<close> seconds has been started with
  \<^verbatim>\<open>process.kill\<close> as its action. What a kill does to the process, to the processes it
  has started and to the pipe is the operating system's business and not decided by the
  code, so both are given by the environment.
\<close>

type_synonym observation = "string \<times> int option"

record process =
  alone :: "observation list"
  under_timer :: "int \<Rightarrow> observation list"

record world =
  installed :: "(string \<times> string) list"
  pending :: "process list"
  popen_calls :: "string list"
  timers :: "int list"
  printed :: "string list"
  debug_log :: "string list"
  info_log :: "string list"
  sleeps :: "real list"

definition find_executable :: "world \<Rightarrow> string \<Rightarrow> string option" where
  "find_executable w name = map_of (installed w) name"

definition print :: "string \<Rightarrow> world \<Rightarrow> world" where
  "print s w = w\<lparr>printed := printed w @ [s]\<rparr>"

definition logger_debug :: "string \<Rightarrow> world \<Rightarrow> world" where
  "logger_debug s w = w\<lparr>debug_log := debug_log w @ [s]\<rparr>"

definition logger_info :: "string \<Rightarrow> world \<Rightarrow> world" where
  "logger_info s w = w\<lparr>info_log := info_log w @ [s]\<rparr>"

definition sleep :: "real \<Rightarrow> world \<Rightarrow> world" where
  "sleep d w = w\<lparr>sleeps := sleeps w @ [d]\<rparr>"

section \<open>ssh.py: the session and its base command\<close>

record IP =
  external :: "string option"
  internal :: "string option"

definition IP_init :: "string option \<Rightarrow> string option \<Rightarrow> string option \<Rightarrow> IP" where
  "IP_init external' internal' ip' =
     \<lparr>external = py_or external' ip', internal = py_or internal' ip'\<rparr>"

record Ssh =
  ip :: "string option"
  gce_user :: string
  ssh_private_key_path :: string
  extra_args_ssh_tunnel :: "string option"

definition Ssh_init :: "IP \<Rightarrow> string \<Rightarrow> string \<Rightarrow> string option \<Rightarrow> bool \<Rightarrow> Ssh" where
  "Ssh_init ip' gce_user' ssh_private_key_path' extra_args_ssh_tunnel' report_internal_ip =
     \<lparr>ip = (if report_internal_ip then internal ip' else external ip'),
      gce_user = gce_user',
      ssh_private_key_path = ssh_private_key_path',
      extra_args_ssh_tunnel = extra_args_ssh_tunnel'\<rparr>"

definition SSH_CMD :: "string \<Rightarrow> string" where
  "SSH_CMD rsa_key_file =
     ''-i '' @ rsa_key_file @ '' -q -o UserKnownHostsFile=/dev/null -o StrictHostKeyChecking=no''"

definition SSH_IDENTITY :: "string \<Rightarrow> string option \<Rightarrow> string" where
  "SSH_IDENTITY login_user ip_addr = ''-l '' @ login_user @ '' '' @ fmt_s ip_addr"

definition SSH_CMD_MAX_RETRY :: nat where
  "SSH_CMD_MAX_RETRY = 4"

definition SSH_CMD_RETRY_SLEEP :: real where
  "SSH_CMD_RETRY_SLEEP = 3"

text \<open>
  \<^verbatim>\<open>" ".join(base_cmd)\<close> on the list that starts with \<^verbatim>\<open>find_executable(execute_bin)\<close>:
  a \<^verbatim>\<open>TypeError\<close> when the executable was not found (the item is \<^verbatim>\<open>None\<close>).
\<close>

definition join_base_cmd :: "string option \<Rightarrow> string list \<Rightarrow> error + string" where
  "join_base_cmd exe args =
     (case exe of None \<Rightarrow> Inl TypeError | Some path \<Rightarrow> Inr (join '' '' (path # args)))"

definition GetBaseCmd :: "constants \<Rightarrow> Ssh \<Rightarrow> string \<Rightarrow> world \<Rightarrow> error + string" where
  "GetBaseCmd c self execute_bin w =
     (let exe = find_executable w execute_bin;
          base_cmd = [SSH_CMD (ssh_private_key_path self)];
          base_cmd = (case extra_args_ssh_tunnel self of
                        None \<Rightarrow> base_cmd
                      | Some extra \<Rightarrow> if extra \<noteq> [] then base_cmd @ [extra] else base_cmd)
      in if execute_bin = SSH_BIN c
           then join_base_cmd exe (base_cmd @ [SSH_IDENTITY (gce_user self) (ip self)])
         else if execute_bin = SCP_BIN c
           then join_base_cmd exe base_cmd
         else Inl (UnknownType (''Don't support the execute bin '' @ execute_bin @ ''.'')))"

section \<open>ssh.py: running one command\<close>

text \<open>
  \<^verbatim>\<open>subprocess.Popen(cmd, shell=True, ...)\<close> starts the next pending process and records
  the command line. With no pending process left the model has no behaviour to offer:
  the result is \<open>None\<close>, as for a loop that does not return.
\<close>

definition Popen :: "string \<Rightarrow> world \<Rightarrow> (process \<times> world) option" where
  "Popen cmd w =
     (case pending w of
        [] \<Rightarrow> None
      | p # ps \<Rightarrow> Some (p, w\<lparr>pending := ps, popen_calls := popen_calls w @ [cmd]\<rparr>))"

text \<open>
  What the loop observes of process \<open>p\<close> for a given \<open>timeout\<close> argument. The timer
  \<^verbatim>\<open>threading.Timer(timeout, process.kill)\<close> is started under \<^verbatim>\<open>if timeout:\<close>, so neither
  for \<^verbatim>\<open>None\<close> nor for \<open>0\<close>.
\<close>

definition observed :: "int option \<Rightarrow> process \<Rightarrow> observation list" where
  "observed timeout p =
     (case timeout of
        None \<Rightarrow> alone p
      | Some t \<Rightarrow> if t \<noteq> 0 then under_timer p t else alone p)"

definition Timer_start :: "int option \<Rightarrow> world \<Rightarrow> world" where
  "Timer_start timeout w =
     (case timeout of
        None \<Rightarrow> w
      | Some t \<Rightarrow> if t \<noteq> 0 then w\<lparr>timers := timers w @ [t]\<rparr> else w)"

text \<open>
  The loop of \<^verbatim>\<open>_SshCall\<close>: \<^verbatim>\<open>while True: if process.poll() is not None: break\<close>.
  It returns \<^verbatim>\<open>process.returncode\<close>, which \<^verbatim>\<open>poll()\<close> has set.
\<close>

fun poll_loop :: "observation list \<Rightarrow> int option" where
  "poll_loop [] = None"
| "poll_loop ((output, None) # rest) = poll_loop rest"
| "poll_loop ((output, Some returncode) # rest) = Some returncode"

definition SshCall :: "string \<Rightarrow> int option \<Rightarrow> world \<Rightarrow> (int \<times> world) option" where
  "SshCall cmd timeout w =
     (case Popen cmd (logger_info (''Running command \"'' @ cmd @ ''\"'') w) of
        None \<Rightarrow> None
      | Some (process, w1) \<Rightarrow>
          (let w2 = Timer_start timeout w1
           in case poll_loop (observed timeout process) of
                None \<Rightarrow> None
              | Some returncode \<Rightarrow> Some (returncode, w2)))"

text \<open>
  The loop of \<^verbatim>\<open>_SshLogOutput\<close>:
  \<^verbatim>\<open>
    while True:
        output = process.stdout.readline()
        if output == "" and process.poll() is not None:
            break
        if output:
            if show_output: print(output.strip())
            else: logger.debug(output.strip())
  \<close>
  It returns the return code that the last \<^verbatim>\<open>poll()\<close> has set, and \<open>None\<close> when the
  observations end before the loop does.
\<close>

fun log_loop :: "bool \<Rightarrow> observation list \<Rightarrow> world \<Rightarrow> (int \<times> world) option" where
  "log_loop show_output [] w = None"
| "log_loop show_output ((output, status) # rest) w =
     (if output = [] \<and> status \<noteq> None then Some (the status, w)
      else if output \<noteq> [] then
        log_loop show_output rest
          (if show_output then print (strip output) w else logger_debug (strip output) w)
      else log_loop show_output rest w)"

definition SshLogOutput ::
    "string \<Rightarrow> int option \<Rightarrow> bool \<Rightarrow> world \<Rightarrow> ((error + unit) \<times> world) option" where
  "SshLogOutput cmd timeout show_output w =
     (case Popen cmd (logger_info (''Running command \"'' @ cmd @ ''\"'') w) of
        None \<Rightarrow> None
      | Some (process, w1) \<Rightarrow>
          (case log_loop show_output (observed timeout process) (Timer_start timeout w1) of
             None \<Rightarrow> None
           | Some (returncode, w2) \<Rightarrow>
               if returncode = 255 then
                 Some (Inl (DeviceConnectionError
                         (''Failed to send command to instance ('' @ cmd @ '')'')), w2)
               else if returncode \<noteq> 0 then
                 Some (Inl (CalledProcessError returncode cmd), w2)
               else Some (Inr (), w2)))"

section \<open>The retry engine\<close>

text \<open>
  Modelled from the spec: \<^verbatim>\<open>utils.RetryExceptionType\<close>, the Retry Policy Engine that
  \<^verbatim>\<open>ShellCmdWithRetry\<close> calls, is defined in \<^verbatim>\<open>acloud/internal/lib/utils.py\<close>, which is not
  among the sources. The model follows the specification (data model and section 4.5):
  a \<open>RetryContext\<close> of attempt count, maximal retries, base sleep and backoff factor;
  the engine invokes the operation once; on a failure of a retryable class with
  attempts remaining it sleeps \<open>baseSleep * backoffFactor ^ (attempt - 1)\<close> seconds,
  increments the attempt counter and retries; on a failure of a retryable class with no
  attempt remaining it surfaces the distinct "retries exhausted" failure, which carries
  the attempt count; any other failure propagates at once.
\<close>

record RetryContext =
  attempt_count :: nat
  max_retries :: nat
  base_sleep_seconds :: real
  backoff_factor :: real

text \<open>
  Modelled from the spec: the loop of the engine (section 4.5), which threads the
  \<open>RetryContext\<close> and returns it with the result; the attempt counter is the number of
  the attempt just made.
\<close>

function RunWithRetry_loop ::
    "(error \<Rightarrow> bool) \<Rightarrow> (world \<Rightarrow> ((error + 'a) \<times> world) option) \<Rightarrow> RetryContext \<Rightarrow> world
      \<Rightarrow> ((error + 'a) \<times> RetryContext \<times> world) option" where
  "RunWithRetry_loop retryable operation ctx w =
     (case operation w of
        None \<Rightarrow> None
      | Some (Inr result, w1) \<Rightarrow> Some (Inr result, ctx, w1)
      | Some (Inl failure, w1) \<Rightarrow>
          if retryable failure then
            if attempt_count ctx < max_retries ctx then
              RunWithRetry_loop retryable operation
                (ctx\<lparr>attempt_count := Suc (attempt_count ctx)\<rparr>)
                (sleep (base_sleep_seconds ctx * backoff_factor ctx ^ (attempt_count ctx - 1)) w1)
            else Some (Inl (RetriesExhausted (attempt_count ctx)), ctx, w1)
          else Some (Inl failure, ctx, w1))"
  by pat_completeness auto
termination
  by (relation "measure (\<lambda>(retryable, operation, ctx, w). max_retries ctx - attempt_count ctx)")
     auto

declare RunWithRetry_loop.simps [simp del]

text \<open>
  Modelled from the spec: the entry point of the engine under the name and with the
  arguments of the call in \<^verbatim>\<open>ShellCmdWithRetry\<close>. The first attempt is attempt 1.
\<close>

definition RetryExceptionType ::
    "(error \<Rightarrow> bool) \<Rightarrow> nat \<Rightarrow> (world \<Rightarrow> ((error + 'a) \<times> world) option) \<Rightarrow> real \<Rightarrow> real \<Rightarrow> world
      \<Rightarrow> ((error + 'a) \<times> world) option" where
  "RetryExceptionType exception_types max_retries' functor sleep_multiplier retry_backoff_factor w =
     (case RunWithRetry_loop exception_types functor
             \<lparr>attempt_count = 1, max_retries = max_retries',
              base_sleep_seconds = sleep_multiplier, backoff_factor = retry_backoff_factor\<rparr> w of
        None \<Rightarrow> None
      | Some (r, ctx, w') \<Rightarrow> Some (r, w'))"

text \<open>
  Modelled from the spec: the connectivity error of the error surface (section 6) is
  "transport never succeeded / retries exhausted".
\<close>

fun connectivity_error :: "error \<Rightarrow> bool" where
  "connectivity_error (DeviceConnectionError msg) = True"
| "connectivity_error (RetriesExhausted n) = True"
| "connectivity_error e = False"

section \<open>ssh.py: commands with retry, and the operations of a session\<close>

text \<open>\<^verbatim>\<open>exception_types=errors.DeviceConnectionError\<close>: the test the engine is given.\<close>

fun isinstance_DeviceConnectionError :: "error \<Rightarrow> bool" where
  "isinstance_DeviceConnectionError (DeviceConnectionError msg) = True"
| "isinstance_DeviceConnectionError e = False"

definition ShellCmdWithRetry ::
    "constants \<Rightarrow> string \<Rightarrow> int option \<Rightarrow> bool \<Rightarrow> world \<Rightarrow> ((error + unit) \<times> world) option" where
  "ShellCmdWithRetry c cmd timeout show_output w =
     RetryExceptionType isinstance_DeviceConnectionError SSH_CMD_MAX_RETRY
       (SshLogOutput cmd timeout show_output)
       SSH_CMD_RETRY_SLEEP (DEFAULT_RETRY_BACKOFF_FACTOR c) w"

definition Run ::
    "constants \<Rightarrow> Ssh \<Rightarrow> string \<Rightarrow> int option \<Rightarrow> bool \<Rightarrow> world
      \<Rightarrow> ((error + unit) \<times> world) option" where
  "Run c self target_command timeout show_output w =
     (case GetBaseCmd c self (SSH_BIN c) w of
        Inl e \<Rightarrow> Some (Inl e, w)
      | Inr base \<Rightarrow> ShellCmdWithRetry c (base @ '' '' @ target_command) timeout show_output w)"

text \<open>
  \<^verbatim>\<open>WaitForSsh\<close>: \<^verbatim>\<open>for _ in range(max_retry)\<close> is recursion on the number of iterations
  left. The method is decorated with \<^verbatim>\<open>utils.TimeExecute\<close>, which is not among the
  sources; the model is of the method's body.
\<close>

fun WaitForSsh_loop ::
    "nat \<Rightarrow> string \<Rightarrow> int option \<Rightarrow> world \<Rightarrow> ((error + unit) \<times> world) option" where
  "WaitForSsh_loop 0 cmd timeout w =
     Some (Inl (DeviceConnectionError ''Ssh isn't ready in the remote instance.''), w)"
| "WaitForSsh_loop (Suc n) cmd timeout w =
     (case SshCall cmd timeout w of
        None \<Rightarrow> None
      | Some (returncode, w') \<Rightarrow>
          if returncode = 0 then Some (Inr (), w') else WaitForSsh_loop n cmd timeout w')"

definition WaitForSsh ::
    "constants \<Rightarrow> Ssh \<Rightarrow> int option \<Rightarrow> int \<Rightarrow> world \<Rightarrow> ((error + unit) \<times> world) option" where
  "WaitForSsh c self timeout max_retry w =
     (case GetBaseCmd c self (SSH_BIN c) w of
        Inl e \<Rightarrow> Some (Inl e, w)
      | Inr base \<Rightarrow> WaitForSsh_loop (nat max_retry) (join '' '' [base, ''uptime'']) timeout w)"

definition ScpPushFile ::
    "constants \<Rightarrow> Ssh \<Rightarrow> string \<Rightarrow> string \<Rightarrow> world \<Rightarrow> ((error + unit) \<times> world) option" where
  "ScpPushFile c self src_file dst_file w =
     (case GetBaseCmd c self (SCP_BIN c) w of
        Inl e \<Rightarrow> Some (Inl e, w)
      | Inr base \<Rightarrow>
          ShellCmdWithRetry c
            (join '' '' [base, src_file,
                         gce_user self @ ''@'' @ fmt_s (ip self) @ '':'' @ dst_file])
            None False w)"

definition ScpPullFile ::
    "constants \<Rightarrow> Ssh \<Rightarrow> string \<Rightarrow> string \<Rightarrow> world \<Rightarrow> ((error + unit) \<times> world) option" where
  "ScpPullFile c self src_file dst_file w =
     (case GetBaseCmd c self (SCP_BIN c) w of
        Inl e \<Rightarrow> Some (Inl e, w)
      | Inr base \<Rightarrow>
          ShellCmdWithRetry c
            (join '' '' [base,
                         gce_user self @ ''@'' @ fmt_s (ip self) @ '':'' @ src_file,
                         dst_file])
            None False w)"

section \<open>The lifetime of a session\<close>

text \<open>
  The public operations of the class \<^verbatim>\<open>Ssh\<close>, as values, and what a call leaves behind:
  the object and the environment after the call has returned or raised (\<open>None\<close> when
  it does not return). No method of the class assigns to an attribute of \<^verbatim>\<open>self\<close>, so
  the object a call leaves behind is the one it was given.
\<close>

datatype operation =
    Run_op string "int option" bool
  | GetBaseCmd_op string
  | WaitForSsh_op "int option" int
  | ScpPushFile_op string string
  | ScpPullFile_op string string

fun perform :: "constants \<Rightarrow> operation \<Rightarrow> Ssh \<times> world \<Rightarrow> (Ssh \<times> world) option" where
  "perform c (Run_op target_command timeout show_output) (self, w) =
     map_option (\<lambda>(r, w'). (self, w')) (Run c self target_command timeout show_output w)"
| "perform c (GetBaseCmd_op execute_bin) (self, w) =
     (case GetBaseCmd c self execute_bin w of Inl e \<Rightarrow> Some (self, w) | Inr cmd \<Rightarrow> Some (self, w))"
| "perform c (WaitForSsh_op timeout max_retry) (self, w) =
     map_option (\<lambda>(r, w'). (self, w')) (WaitForSsh c self timeout max_retry w)"
| "perform c (ScpPushFile_op src_file dst_file) (self, w) =
     map_option (\<lambda>(r, w'). (self, w')) (ScpPushFile c self src_file dst_file w)"
| "perform c (ScpPullFile_op src_file dst_file) (self, w) =
     map_option (\<lambda>(r, w'). (self, w')) (ScpPullFile c self src_file dst_file w)"

fun lifetime :: "constants \<Rightarrow> operation list \<Rightarrow> Ssh \<times> world \<Rightarrow> (Ssh \<times> world) option" where
  "lifetime c [] s = Some s"
| "lifetime c (operation # operations) s =
     (case perform c operation s of None \<Rightarrow> None | Some s' \<Rightarrow> lifetime c operations s')"

section \<open>Notions used to state the properties\<close>

text \<open>The part of the base command that the extra tunnel arguments contribute.\<close>

definition extra_suffix :: "Ssh \<Rightarrow> string" where
  "extra_suffix self =
     (case extra_args_ssh_tunnel self of
        None \<Rightarrow> []
      | Some extra \<Rightarrow> if extra \<noteq> [] then '' '' @ extra else [])"

text \<open>
  The return code of a completed process, as the reading loop sees it: the status of the
  first observation that is at end of file on a process that has exited.
\<close>

definition ends_loop :: "observation \<Rightarrow> bool" where
  "ends_loop ob = (fst ob = [] \<and> snd ob \<noteq> None)"

definition final_status :: "observation list \<Rightarrow> int option" where
  "final_status obs = (case find ends_loop obs of None \<Rightarrow> None | Some ob \<Rightarrow> snd ob)"

text \<open>The lines read before that observation, empty reads left out, each one stripped.\<close>

definition forwarded :: "observation list \<Rightarrow> string list" where
  "forwarded obs =
     map strip (filter (\<lambda>l. l \<noteq> []) (map fst (takeWhile (\<lambda>ob. \<not> ends_loop ob) obs)))"

text \<open>The sink that \<open>show_output\<close> selects, given a list of lines.\<close>

definition emit :: "bool \<Rightarrow> string list \<Rightarrow> world \<Rightarrow> world" where
  "emit show_output ls w =
     (if show_output then w\<lparr>printed := printed w @ ls\<rparr> else w\<lparr>debug_log := debug_log w @ ls\<rparr>)"

text \<open>The sleeps of \<open>n\<close> attempts: one before each retry.\<close>

definition sleep_schedule :: "real \<Rightarrow> real \<Rightarrow> nat \<Rightarrow> real list" where
  "sleep_schedule base factor n = map (\<lambda>k. base * factor ^ k) [0..<n - 1]"

text \<open>The timer that a call with a given \<open>timeout\<close> argument starts, if any.\<close>

definition armed :: "int option \<Rightarrow> int list" where
  "armed timeout = (case timeout of None \<Rightarrow> [] | Some t \<Rightarrow> if t \<noteq> 0 then [t] else [])"

text \<open>
  Environments and processes for concrete evaluations: \<open>ssh\<close> and \<open>scp\<close> installed,
  nothing done yet, the given processes to come; a process that writes one line and
  exits with a given return code, timer or not; a process that writes one line and then
  neither writes nor exits while it is observed, and of which, when a timer kills it,
  the loop sees the end of file and the return code \<open>-9\<close> that \<^verbatim>\<open>Popen\<close> reports for a
  child ended by the signal 9 of \<^verbatim>\<open>process.kill\<close>.
\<close>

definition world_with :: "process list \<Rightarrow> world" where
  "world_with ps =
     \<lparr>installed = [(''ssh'', ''/usr/bin/ssh''), (''scp'', ''/usr/bin/scp'')],
      pending = ps, popen_calls = [], timers = [], printed = [], debug_log = [],
      info_log = [], sleeps = []\<rparr>"

definition exits_with :: "int \<Rightarrow> process" where
  "exits_with returncode =
     \<lparr>alone = [(''up 3 days'' @ [CHR 0x0A], None), ([], Some returncode)],
      under_timer = (\<lambda>t. [(''up 3 days'' @ [CHR 0x0A], None), ([], Some returncode)])\<rparr>"

definition hangs :: process where
  "hangs =
     \<lparr>alone = [(''booting'' @ [CHR 0x0A], None), ([], None), ([], None)],
      under_timer = (\<lambda>t. [(''booting'' @ [CHR 0x0A], None), ([], Some (- 9))])\<rparr>"

definition example_session :: Ssh where
  "example_session =
     Ssh_init (IP_init (Some ''34.1.2.3'') (Some ''10.0.0.2'') None) ''vsoc-01'' ''/keys/id_rsa''
       None False"

section \<open>Facts about the sinks\<close>

lemma emit_print: "emit True ls (print l w) = emit True (l # ls) w"
  by (simp add: emit_def print_def)

lemma emit_debug: "emit False ls (logger_debug l w) = emit False (l # ls) w"
  by (simp add: emit_def logger_debug_def)

lemma emit_step:
  "emit s ls (if s then print l w else logger_debug l w) = emit s (l # ls) w"
  by (simp add: emit_def print_def logger_debug_def)

lemma emit_Nil: "emit s [] w = w"
  by (simp add: emit_def)

section \<open>create.py: the dispatch\<close>

text \<open>
  Claim C10. For every pair of instance type and image source, \<open>GetAvdCreatorClass\<close>
  returns the creator class of the matching combination when the pair is one of the four
  remote/local combinations, and raises \<open>UnsupportedInstanceImageType\<close> for every pair
  outside those four; so it always either returns a class or raises that error. The two
  instance types, and the two image sources, are taken to be different strings.
\<close>

theorem GetAvdCreatorClass_dispatch:
  assumes "INSTANCE_TYPE_REMOTE c \<noteq> INSTANCE_TYPE_LOCAL c"
      and "IMAGE_SRC_LOCAL c \<noteq> IMAGE_SRC_REMOTE c"
  shows "GetAvdCreatorClass c (INSTANCE_TYPE_REMOTE c) (IMAGE_SRC_LOCAL c) = Inr LocalImageRemoteInstance
       \<and> GetAvdCreatorClass c (INSTANCE_TYPE_LOCAL c) (IMAGE_SRC_LOCAL c) = Inr LocalImageLocalInstance
       \<and> GetAvdCreatorClass c (INSTANCE_TYPE_REMOTE c) (IMAGE_SRC_REMOTE c) = Inr RemoteImageRemoteInstance
       \<and> GetAvdCreatorClass c (INSTANCE_TYPE_LOCAL c) (IMAGE_SRC_REMOTE c) = Inr RemoteImageLocalInstance
       \<and> (\<forall>instance_type image_source.
            (instance_type \<noteq> INSTANCE_TYPE_REMOTE c \<and> instance_type \<noteq> INSTANCE_TYPE_LOCAL c)
            \<or> (image_source \<noteq> IMAGE_SRC_LOCAL c \<and> image_source \<noteq> IMAGE_SRC_REMOTE c)
            \<longrightarrow> GetAvdCreatorClass c instance_type image_source =
                  Inl (UnsupportedInstanceImageType
                        (''unsupported creation of instance type: '' @ instance_type @
                         '', image source: '' @ image_source)))"
  using assms by (auto simp: GetAvdCreatorClass_def)

theorem GetAvdCreatorClass_dispatch_witness:
  "GetAvdCreatorClass example_constants ''remote'' ''local'' = Inr LocalImageRemoteInstance
   \<and> GetAvdCreatorClass example_constants ''local'' ''local'' = Inr LocalImageLocalInstance
   \<and> GetAvdCreatorClass example_constants ''remote'' ''remote'' = Inr RemoteImageRemoteInstance
   \<and> GetAvdCreatorClass example_constants ''local'' ''remote'' = Inr RemoteImageLocalInstance
   \<and> GetAvdCreatorClass example_constants ''gce'' ''local'' =
       Inl (UnsupportedInstanceImageType
             ''unsupported creation of instance type: gce, image source: local'')"
  using GetAvdCreatorClass_dispatch [of example_constants]
  by (simp add: example_constants_def)

section \<open>ssh.py: the base command\<close>

text \<open>
  Claim C4. With the executable found, \<open>GetBaseCmd\<close> for the shell kind is the path of
  the executable, the identity-file flag, the flags that disable host-key checking and
  the known-hosts file, the extra tunnel arguments if any, and the suffix
  \<open>-l user address\<close>; for the file-copy kind it is the same without that suffix; for any
  other kind it raises \<open>UnknownType\<close>, whatever is installed.
\<close>

theorem GetBaseCmd_kinds:
  "(find_executable w (SSH_BIN c) = Some ssh_path \<longrightarrow>
      GetBaseCmd c self (SSH_BIN c) w =
        Inr (ssh_path @ '' -i '' @ ssh_private_key_path self @
             '' -q -o UserKnownHostsFile=/dev/null -o StrictHostKeyChecking=no'' @
             extra_suffix self @ '' -l '' @ gce_user self @ '' '' @ fmt_s (ip self)))
   \<and> (SCP_BIN c \<noteq> SSH_BIN c \<and> find_executable w (SCP_BIN c) = Some scp_path \<longrightarrow>
      GetBaseCmd c self (SCP_BIN c) w =
        Inr (scp_path @ '' -i '' @ ssh_private_key_path self @
             '' -q -o UserKnownHostsFile=/dev/null -o StrictHostKeyChecking=no'' @
             extra_suffix self))
   \<and> (kind \<noteq> SSH_BIN c \<and> kind \<noteq> SCP_BIN c \<longrightarrow>
      GetBaseCmd c self kind w =
        Inl (UnknownType (''Don't support the execute bin '' @ kind @ ''.'')))"
  by (auto simp: GetBaseCmd_def join_base_cmd_def SSH_CMD_def SSH_IDENTITY_def extra_suffix_def
           split: option.splits)

theorem GetBaseCmd_kinds_witness:
  "GetBaseCmd example_constants example_session ''ssh'' (world_with []) =
     Inr (''/usr/bin/ssh -i /keys/id_rsa -q -o UserKnownHostsFile=/dev/null '' @
          ''-o StrictHostKeyChecking=no -l vsoc-01 34.1.2.3'')
   \<and> GetBaseCmd example_constants example_session ''scp'' (world_with []) =
     Inr (''/usr/bin/scp -i /keys/id_rsa -q -o UserKnownHostsFile=/dev/null '' @
          ''-o StrictHostKeyChecking=no'')
   \<and> GetBaseCmd example_constants example_session ''rsync'' (world_with []) =
     Inl (UnknownType ''Don't support the execute bin rsync.'')"
  using GetBaseCmd_kinds [of "world_with []" example_constants "''/usr/bin/ssh''" example_session
          "''/usr/bin/scp''" "''rsync''"]
  by (simp add: example_constants_def example_session_def world_with_def find_executable_def
        Ssh_init_def IP_init_def py_or_def truthy_str_def extra_suffix_def fmt_s_def)

text \<open>
  Outside the claim: when the executable of a recognized kind is not found, the join of
  the command raises the built-in \<open>TypeError\<close>.
\<close>

lemma GetBaseCmd_executable_missing:
  assumes "execute_bin = SSH_BIN c \<or> execute_bin = SCP_BIN c"
      and "find_executable w execute_bin = None"
  shows "GetBaseCmd c self execute_bin w = Inl TypeError"
proof (cases "execute_bin = SSH_BIN c")
  case True
  with assms(2) show ?thesis by (simp add: GetBaseCmd_def join_base_cmd_def)
next
  case False
  with assms show ?thesis by (simp add: GetBaseCmd_def join_base_cmd_def)
qed

section \<open>ssh.py: the reading loop\<close>

lemma log_loop_Cons:
  "log_loop s (ob # rest) w =
     (if ends_loop ob then Some (the (snd ob), w)
      else log_loop s rest
             (if fst ob \<noteq> [] then (if s then print (strip (fst ob)) w else logger_debug (strip (fst ob)) w)
              else w))"
proof -
  obtain l st where "ob = (l, st)" by (cases ob)
  then show ?thesis by (cases st) (simp_all add: ends_loop_def)
qed

lemma log_loop_None:
  "(log_loop s obs w = None) = (\<forall>ob \<in> set obs. \<not> ends_loop ob)"
  by (induction obs arbitrary: w) (simp_all add: log_loop_Cons del: log_loop.simps(2))

lemma log_loop_Some:
  "(log_loop s obs w = Some (rc, w')) =
   (\<exists>pre post. obs = pre @ ([], Some rc) # post \<and> (\<forall>ob \<in> set pre. \<not> ends_loop ob)
      \<and> w' = emit s (map strip (filter (\<lambda>l. l \<noteq> []) (map fst pre))) w)"
proof (induction obs arbitrary: w)
  case Nil
  then show ?case by simp
next
  case (Cons ob obs)
  obtain l st where ob: "ob = (l, st)" by (cases ob)
  show ?case
  proof (cases "ends_loop ob")
    case True
    then obtain r where r: "l = []" "st = Some r" by (auto simp: ends_loop_def ob)
    have "(\<exists>pre post. ob # obs = pre @ ([], Some rc) # post \<and> (\<forall>x \<in> set pre. \<not> ends_loop x)
             \<and> w' = emit s (map strip (filter (\<lambda>l. l \<noteq> []) (map fst pre))) w)
          = (r = rc \<and> w' = w)" (is "?L = ?R")
    proof
      assume ?L
      then obtain pre post where p: "ob # obs = pre @ ([], Some rc) # post"
        "\<forall>x \<in> set pre. \<not> ends_loop x"
        "w' = emit s (map strip (filter (\<lambda>l. l \<noteq> []) (map fst pre))) w" by blast
      have "pre = []"
      proof (cases pre)
        case Nil then show ?thesis .
      next
        case (Cons a as)
        with p(1) have "a = ob" by simp
        with p(2) Cons True show ?thesis by simp
      qed
      with p show ?R by (simp add: ob r emit_Nil)
    next
      assume ?R
      then have "ob # obs = [] @ ([], Some rc) # obs" by (simp add: ob r)
      with \<open>?R\<close> show ?L by (metis emit_Nil empty_iff filter.simps(1) list.map(1) list.set(1))
    qed
    moreover have "log_loop s (ob # obs) w = Some (r, w)"
      by (simp add: ob r)
    ultimately show ?thesis by auto
  next
    case False
    let ?w1 = "if l \<noteq> [] then (if s then print (strip l) w else logger_debug (strip l) w) else w"
    have step: "log_loop s (ob # obs) w = log_loop s obs ?w1"
      using False by (simp add: log_loop_Cons ob del: log_loop.simps(2))
    have em: "\<And>ls. emit s ls ?w1 = emit s ((if l \<noteq> [] then [strip l] else []) @ ls) w"
      by (auto simp: emit_step)
    have "(\<exists>pre post. ob # obs = pre @ ([], Some rc) # post \<and> (\<forall>x \<in> set pre. \<not> ends_loop x)
             \<and> w' = emit s (map strip (filter (\<lambda>l. l \<noteq> []) (map fst pre))) w)
        = (\<exists>pre post. obs = pre @ ([], Some rc) # post \<and> (\<forall>x \<in> set pre. \<not> ends_loop x)
             \<and> w' = emit s (map strip (filter (\<lambda>l. l \<noteq> []) (map fst pre))) ?w1)" (is "?L = ?R")
    proof
      assume ?L
      then obtain pre post where p: "ob # obs = pre @ ([], Some rc) # post"
        "\<forall>x \<in> set pre. \<not> ends_loop x"
        "w' = emit s (map strip (filter (\<lambda>l. l \<noteq> []) (map fst pre))) w" by blast
      from p(1) False obtain pre' where pre': "pre = ob # pre'"
        by (cases pre) (auto simp: ends_loop_def)
      with p have "obs = pre' @ ([], Some rc) # post" "\<forall>x \<in> set pre'. \<not> ends_loop x"
        "w' = emit s (map strip (filter (\<lambda>l. l \<noteq> []) (map fst pre'))) ?w1"
        by (auto simp: em ob)
      then show ?R by blast
    next
      assume ?R
      then obtain pre post where p: "obs = pre @ ([], Some rc) # post"
        "\<forall>x \<in> set pre. \<not> ends_loop x"
        "w' = emit s (map strip (filter (\<lambda>l. l \<noteq> []) (map fst pre))) ?w1" by blast
      then have "ob # obs = (ob # pre) @ ([], Some rc) # post"
        "\<forall>x \<in> set (ob # pre). \<not> ends_loop x"
        "w' = emit s (map strip (filter (\<lambda>l. l \<noteq> []) (map fst (ob # pre)))) w"
        using False by (auto simp: em ob)
      then show ?L by blast
    qed
    with Cons.IH [of ?w1] step show ?thesis by simp
  qed
qed

lemma log_loop_final:
  "log_loop s obs w =
     (case final_status obs of None \<Rightarrow> None | Some rc \<Rightarrow> Some (rc, emit s (forwarded obs) w))"
proof (induction obs arbitrary: w)
  case Nil
  show ?case by (simp add: final_status_def)
next
  case (Cons ob obs)
  show ?case
  proof (cases "ends_loop ob")
    case True
    then obtain rc where "snd ob = Some rc" by (auto simp: ends_loop_def)
    with True show ?thesis
      by (simp add: log_loop_Cons final_status_def forwarded_def emit_Nil del: log_loop.simps(2))
  next
    case False
    have fw: "forwarded (ob # obs) = (if fst ob \<noteq> [] then [strip (fst ob)] else []) @ forwarded obs"
      using False by (simp add: forwarded_def)
    have fs: "final_status (ob # obs) = final_status obs"
      using False by (simp add: final_status_def)
    show ?thesis
      using False
      by (simp add: log_loop_Cons Cons.IH fw fs emit_print emit_debug del: log_loop.simps(2)
               split: option.splits)
  qed
qed

text \<open>
  Claim C6. The loop of \<open>_SshLogOutput\<close> ends with return code \<open>rc\<close> exactly when the
  observations are some reads, none of them an empty read on an exited process, followed
  by an empty read on a process that has exited with \<open>rc\<close>; every nonempty line read
  before that has been given, stripped, to \<open>print\<close> when \<open>show_output\<close> is true and to
  \<open>logger.debug\<close> otherwise. The loop does not end while no read is an empty read on an
  exited process; a nonempty read on an exited process does not end it.
\<close>

theorem log_loop_forwards_until_exit:
  "((log_loop show_output obs w = Some (rc, w')) =
      (\<exists>pre post. obs = pre @ ([], Some rc) # post
         \<and> (\<forall>ob \<in> set pre. fst ob \<noteq> [] \<or> snd ob = None)
         \<and> w' = emit show_output (map strip (filter (\<lambda>l. l \<noteq> []) (map fst pre))) w))
   \<and> ((log_loop show_output obs w = None) = (\<forall>ob \<in> set obs. fst ob \<noteq> [] \<or> snd ob = None))"
  using log_loop_Some [of show_output obs w rc w'] log_loop_None [of show_output obs w]
  by (simp add: ends_loop_def)

theorem log_loop_forwards_until_exit_witness:
  "log_loop True
     [(''up 3 days'' @ [CHR 0x0A], None), ([], None), (''  load 0.1'' @ [CHR 0x0A], Some 0),
      ([], Some 0), (''late'', None)] (world_with [])
     = Some (0, (world_with [])\<lparr>printed := [''up 3 days'', ''load 0.1'']\<rparr>)
   \<and> log_loop False [(''bye'' @ [CHR 0x0A], Some 0), ([], None)] (world_with []) = None"
proof -
  let ?pre = "[(''up 3 days'' @ [CHR 0x0A], None), ([], None),
               (''  load 0.1'' @ [CHR 0x0A], Some (0::int))]"
  let ?obs = "?pre @ [([], Some 0), (''late'', None)]"
  let ?w' = "(world_with [])\<lparr>printed := [''up 3 days'', ''load 0.1'']\<rparr>"
  have "?obs = ?pre @ ([], Some 0) # [(''late'', None)]
        \<and> (\<forall>ob \<in> set ?pre. fst ob \<noteq> [] \<or> snd ob = None)
        \<and> ?w' = emit True (map strip (filter (\<lambda>l. l \<noteq> []) (map fst ?pre))) (world_with [])"
    by (simp add: emit_def strip_def isspace_def world_with_def)
  then have "\<exists>pre post. ?obs = pre @ ([], Some 0) # post
        \<and> (\<forall>ob \<in> set pre. fst ob \<noteq> [] \<or> snd ob = None)
        \<and> ?w' = emit True (map strip (filter (\<lambda>l. l \<noteq> []) (map fst pre))) (world_with [])"
    by blast
  then have a: "log_loop True ?obs (world_with []) = Some (0, ?w')"
    by (rule iffD2 [OF conjunct1 [OF log_loop_forwards_until_exit]])
  have "\<forall>ob \<in> set [(''bye'' @ [CHR 0x0A], Some (0::int)), ([], None)]. fst ob \<noteq> [] \<or> snd ob = None"
    by simp
  then have b: "log_loop False [(''bye'' @ [CHR 0x0A], Some 0), ([], None)] (world_with []) = None"
    by (rule iffD2 [OF conjunct2 [OF log_loop_forwards_until_exit]])
  from a b show ?thesis by simp
qed

section \<open>ssh.py: the outcome of one command\<close>

lemma SshLogOutput_Some:
  assumes "pending w = p # ps" and "final_status (observed t p) = Some rc"
  shows "\<exists>w'. SshLogOutput cmd t s w =
           Some (if rc = 0 then Inr ()
                 else if rc = 255 then
                   Inl (DeviceConnectionError (''Failed to send command to instance ('' @ cmd @ '')''))
                 else Inl (CalledProcessError rc cmd), w')
         \<and> pending w' = ps \<and> popen_calls w' = popen_calls w @ [cmd] \<and> sleeps w' = sleeps w
         \<and> installed w' = installed w
         \<and> timers w' = timers (Timer_start t w)
         \<and> printed w' = printed w @ (if s then forwarded (observed t p) else [])
         \<and> debug_log w' = debug_log w @ (if s then [] else forwarded (observed t p))"
  using assms
  by (auto simp: SshLogOutput_def Popen_def logger_info_def log_loop_final emit_def Timer_start_def
           split: option.splits)

lemma SshLogOutput_None:
  "pending w = [] \<Longrightarrow> SshLogOutput cmd t s w = None"
  "pending w = p # ps \<Longrightarrow> final_status (observed t p) = None \<Longrightarrow> SshLogOutput cmd t s w = None"
  by (auto simp: SshLogOutput_def Popen_def logger_info_def log_loop_final)

text \<open>
  Claim C1. For every process that completes, with return code \<open>rc\<close>, whatever the
  command string, the timeout and \<open>show_output\<close>: \<open>_SshLogOutput\<close> returns normally
  when \<open>rc\<close> is 0, raises \<open>DeviceConnectionError\<close> when it is 255, and raises
  \<open>CalledProcessError\<close> carrying \<open>rc\<close> otherwise.
\<close>

theorem SshLogOutput_classification:
  assumes "pending w = p # ps" and "final_status (observed timeout p) = Some rc"
  shows "\<exists>w'. SshLogOutput cmd timeout show_output w =
           Some (if rc = 0 then Inr ()
                 else if rc = 255 then
                   Inl (DeviceConnectionError (''Failed to send command to instance ('' @ cmd @ '')''))
                 else Inl (CalledProcessError rc cmd), w')"
  using SshLogOutput_Some [OF assms, of cmd show_output] by blast

theorem SshLogOutput_classification_witness:
  "(\<exists>w'. SshLogOutput ''ssh host true'' None False (world_with [exits_with 0]) = Some (Inr (), w'))
   \<and> (\<exists>w'. SshLogOutput ''ssh host true'' None True (world_with [exits_with 255]) =
         Some (Inl (DeviceConnectionError ''Failed to send command to instance (ssh host true)''), w'))
   \<and> (\<exists>w'. SshLogOutput ''ssh host false'' (Some 20) False (world_with [exits_with 1]) =
         Some (Inl (CalledProcessError 1 ''ssh host false''), w'))"
  using SshLogOutput_classification [of "world_with [exits_with 0]" "exits_with 0" "[]" None 0
          "''ssh host true''" False]
        SshLogOutput_classification [of "world_with [exits_with 255]" "exits_with 255" "[]" None 255
          "''ssh host true''" True]
        SshLogOutput_classification [of "world_with [exits_with 1]" "exits_with 1" "[]" "Some 20" 1
          "''ssh host false''" False]
  by (simp add: world_with_def exits_with_def observed_def final_status_def
        ends_loop_def)

section \<open>ssh.py: a process killed by the timer\<close>

lemma timers_Timer_start: "timers (Timer_start timeout w) = timers w @ armed timeout"
  by (simp add: Timer_start_def armed_def split: option.splits)

lemma SshLogOutput_returns:
  assumes "SshLogOutput cmd t s w = Some (r, w1)"
  shows "\<exists>p rc. pending w = p # pending w1 \<and> final_status (observed t p) = Some rc
           \<and> r = (if rc = 0 then Inr ()
                   else if rc = 255 then
                     Inl (DeviceConnectionError (''Failed to send command to instance ('' @ cmd @ '')''))
                   else Inl (CalledProcessError rc cmd))
           \<and> popen_calls w1 = popen_calls w @ [cmd] \<and> sleeps w1 = sleeps w"
proof (cases "pending w")
  case Nil
  with assms SshLogOutput_None(1) [of w cmd t s] show ?thesis by simp
next
  case (Cons p ps)
  show ?thesis
  proof (cases "final_status (observed t p)")
    case None
    with assms SshLogOutput_None(2) [OF Cons, of t cmd s] show ?thesis by simp
  next
    case (Some rc)
    from SshLogOutput_Some [OF Cons Some, of cmd s] assms Cons Some
    show ?thesis by auto
  qed
qed

lemma SshLogOutput_timers:
  assumes "SshLogOutput cmd t s w = Some (r, w1)"
  shows "timers w1 = timers w @ armed t"
proof -
  from SshLogOutput_returns [OF assms] obtain p rc where
    p: "pending w = p # pending w1" "final_status (observed t p) = Some rc" by blast
  from SshLogOutput_Some [OF p, of cmd s] assms
  show ?thesis by (auto simp: timers_Timer_start)
qed

text \<open>
  Claim C2 as stated does not hold: a process that hangs and is killed by the timer after
  5 seconds makes \<open>_SshLogOutput\<close> raise \<open>CalledProcessError\<close> with return code \<open>-9\<close>, an
  error of the class of failed remote commands, which is not the class that is retried.
\<close>

theorem SshLogOutput_timeout_counterexample:
  "map_option fst (SshLogOutput ''ssh host sleep 100'' (Some 5) False (world_with [hangs]))
     = Some (Inl (CalledProcessError (- 9) ''ssh host sleep 100''))
   \<and> \<not> isinstance_DeviceConnectionError (CalledProcessError (- 9) ''ssh host sleep 100'')"
  by (simp add: SshLogOutput_def Popen_def logger_info_def world_with_def hangs_def observed_def
        Timer_start_def logger_debug_def)

text \<open>
  Claim C2, as amended. With a nonzero timeout \<open>_SshLogOutput\<close> starts one timer of that
  interval, whose action is \<open>process.kill\<close>, and none otherwise. It keeps no record that
  the timer has fired and has no class for a timeout: whenever the call returns or
  raises, the outcome is decided by the return code of the process alone, and it is a
  \<open>DeviceConnectionError\<close>, the only class that \<open>ShellCmdWithRetry\<close> asks the retry engine
  to retry, exactly when that return code is 255. So when the loop ends on a process
  that the timer has killed, with the return code \<open>-9\<close> of a kill, the call raises
  \<open>CalledProcessError\<close> with \<open>-9\<close>, which is not retried. Whether and when the loop ends
  after the deadline is not decided by the code.
\<close>

theorem SshLogOutput_killed_by_timer:
  "(SshLogOutput cmd timeout show_output w = Some (r, w') \<longrightarrow>
      timers w' = timers w @ armed timeout
      \<and> (\<exists>p rc. pending w = p # pending w'
            \<and> final_status (observed timeout p) = Some rc
            \<and> r = (if rc = 0 then Inr ()
                    else if rc = 255 then
                      Inl (DeviceConnectionError
                            (''Failed to send command to instance ('' @ cmd @ '')''))
                    else Inl (CalledProcessError rc cmd))
            \<and> ((\<exists>e. r = Inl e \<and> isinstance_DeviceConnectionError e) = (rc = 255))))
   \<and> (pending v = q # qs \<and> t \<noteq> 0 \<and> final_status (observed (Some t) q) = Some (- 9) \<longrightarrow>
        (\<exists>v'. SshLogOutput cmd (Some t) show_output v =
                 Some (Inl (CalledProcessError (- 9) cmd), v')
           \<and> timers v' = timers v @ [t]
           \<and> \<not> isinstance_DeviceConnectionError (CalledProcessError (- 9) cmd)))
   \<and> armed None = [] \<and> armed (Some 0) = [] \<and> (t \<noteq> 0 \<longrightarrow> armed (Some t) = [t])"
proof (intro conjI impI)
  {
    assume run: "SshLogOutput cmd timeout show_output w = Some (r, w')"
    from SshLogOutput_timers [OF run]
    show "timers w' = timers w @ armed timeout" .
    from SshLogOutput_returns [OF run] obtain p rc where
      p: "pending w = p # pending w'" "final_status (observed timeout p) = Some rc"
         "r = (if rc = 0 then Inr ()
               else if rc = 255 then
                 Inl (DeviceConnectionError
                       (''Failed to send command to instance ('' @ cmd @ '')''))
               else Inl (CalledProcessError rc cmd))" by blast
    from p(3) have "(\<exists>e. r = Inl e \<and> isinstance_DeviceConnectionError e) = (rc = 255)"
      by auto
    with p show "\<exists>p rc. pending w = p # pending w'
            \<and> final_status (observed timeout p) = Some rc
            \<and> r = (if rc = 0 then Inr ()
                    else if rc = 255 then
                      Inl (DeviceConnectionError
                            (''Failed to send command to instance ('' @ cmd @ '')''))
                    else Inl (CalledProcessError rc cmd))
            \<and> ((\<exists>e. r = Inl e \<and> isinstance_DeviceConnectionError e) = (rc = 255))"
      by blast
  }
  {
    assume a: "pending v = q # qs \<and> t \<noteq> 0 \<and> final_status (observed (Some t) q) = Some (- 9)"
    then have "pending v = q # qs" "final_status (observed (Some t) q) = Some (- 9)" "t \<noteq> 0"
      by simp_all
    from SshLogOutput_Some [OF this(1,2), of cmd show_output] this(3)
    show "\<exists>v'. SshLogOutput cmd (Some t) show_output v =
                 Some (Inl (CalledProcessError (- 9) cmd), v')
           \<and> timers v' = timers v @ [t]
           \<and> \<not> isinstance_DeviceConnectionError (CalledProcessError (- 9) cmd)"
      by (auto simp: timers_Timer_start armed_def)
  }
  show "armed None = []" by (simp add: armed_def)
  show "armed (Some 0) = []" by (simp add: armed_def)
  show "armed (Some t) = [t]" if "t \<noteq> 0" using that by (simp add: armed_def)
qed

theorem SshLogOutput_killed_by_timer_witness:
  "\<exists>w'. SshLogOutput ''ssh host sleep 100'' (Some 5) True (world_with [hangs]) =
           Some (Inl (CalledProcessError (- 9) ''ssh host sleep 100''), w')
        \<and> timers w' = [5]"
proof -
  note inst = SshLogOutput_killed_by_timer
               [where cmd = "''ssh host sleep 100''" and show_output = True and t = 5
                  and v = "world_with [hangs]" and q = hangs and qs = "[]"
                  and timeout = "Some 5" and w = "world_with [hangs]"]
  have "pending (world_with [hangs]) = hangs # [] \<and> (5::int) \<noteq> 0
        \<and> final_status (observed (Some 5) hangs) = Some (- 9)"
    by (simp add: world_with_def hangs_def observed_def final_status_def ends_loop_def)
  from inst [THEN conjunct2, THEN conjunct1, rule_format, OF this]
  obtain w' where run: "SshLogOutput ''ssh host sleep 100'' (Some 5) True (world_with [hangs]) =
           Some (Inl (CalledProcessError (- 9) ''ssh host sleep 100''), w')" by blast
  from inst [THEN conjunct1, rule_format, OF run]
  have "timers w' = timers (world_with [hangs]) @ armed (Some 5)" by blast
  then have "timers w' = [5]"
    by (simp add: world_with_def armed_def)
  with run show ?thesis by blast
qed

section \<open>ssh.py: waiting for the SSH server\<close>

lemma SshCall_Some:
  assumes "pending w = p # ps" and "poll_loop (observed t p) = Some rc"
  shows "\<exists>w'. SshCall cmd t w = Some (rc, w')
         \<and> pending w' = ps \<and> popen_calls w' = popen_calls w @ [cmd] \<and> sleeps w' = sleeps w
         \<and> installed w' = installed w \<and> timers w' = timers w @ armed t"
  using assms
  by (auto simp: SshCall_def Popen_def logger_info_def Timer_start_def armed_def
           split: option.splits)

lemma WaitForSsh_loop_success:
  assumes "pending w = fails @ ok # rest"
      and "\<forall>p \<in> set fails. \<exists>rc. poll_loop (observed t p) = Some rc \<and> rc \<noteq> 0"
      and "poll_loop (observed t ok) = Some 0"
      and "length fails < n"
  shows "\<exists>w'. WaitForSsh_loop n cmd t w = Some (Inr (), w')
         \<and> popen_calls w' = popen_calls w @ replicate (length fails + 1) cmd
         \<and> timers w' = timers w @ concat (replicate (length fails + 1) (armed t))
         \<and> sleeps w' = sleeps w \<and> pending w' = rest"
  using assms
proof (induction fails arbitrary: n w)
  case Nil
  then obtain m where n: "n = Suc m" by (cases n) auto
  from Nil have "pending w = ok # rest" by simp
  from SshCall_Some [OF this Nil.prems(3), of cmd]
  show ?case by (auto simp: n)
next
  case (Cons p fails)
  then obtain m where n: "n = Suc m" by (cases n) auto
  from Cons.prems(2) obtain rc where rc: "poll_loop (observed t p) = Some rc" "rc \<noteq> 0"
    by auto
  from Cons.prems(1) have "pending w = p # (fails @ ok # rest)" by simp
  from SshCall_Some [OF this rc(1), of cmd]
  obtain w1 where w1: "SshCall cmd t w = Some (rc, w1)" "pending w1 = fails @ ok # rest"
    "popen_calls w1 = popen_calls w @ [cmd]" "sleeps w1 = sleeps w"
    "timers w1 = timers w @ armed t" by blast
  have "length fails < m" using Cons.prems(4) n by simp
  from Cons.IH [OF w1(2) _ Cons.prems(3) this] Cons.prems(2)
  obtain w' where "WaitForSsh_loop m cmd t w1 = Some (Inr (), w')"
    "popen_calls w' = popen_calls w1 @ replicate (length fails + 1) cmd"
    "timers w' = timers w1 @ concat (replicate (length fails + 1) (armed t))"
    "sleeps w' = sleeps w1" "pending w' = rest" by auto
  with w1 rc(2) show ?case by (auto simp: n replicate_append_same)
qed

lemma WaitForSsh_loop_failure:
  assumes "pending w = fails @ rest"
      and "\<forall>p \<in> set fails. \<exists>rc. poll_loop (observed t p) = Some rc \<and> rc \<noteq> 0"
      and "length fails = n"
  shows "\<exists>w'. WaitForSsh_loop n cmd t w =
                 Some (Inl (DeviceConnectionError ''Ssh isn't ready in the remote instance.''), w')
         \<and> popen_calls w' = popen_calls w @ replicate n cmd
         \<and> timers w' = timers w @ concat (replicate n (armed t))
         \<and> sleeps w' = sleeps w \<and> pending w' = rest"
  using assms
proof (induction fails arbitrary: n w)
  case Nil
  then show ?case by simp
next
  case (Cons p fails)
  then obtain m where n: "n = Suc m" "length fails = m" by (cases n) auto
  from Cons.prems(2) obtain rc where rc: "poll_loop (observed t p) = Some rc" "rc \<noteq> 0"
    by auto
  from Cons.prems(1) have "pending w = p # (fails @ rest)" by simp
  from SshCall_Some [OF this rc(1), of cmd]
  obtain w1 where w1: "SshCall cmd t w = Some (rc, w1)" "pending w1 = fails @ rest"
    "popen_calls w1 = popen_calls w @ [cmd]" "sleeps w1 = sleeps w"
    "timers w1 = timers w @ armed t" by blast
  from Cons.IH [OF w1(2) _ n(2)] Cons.prems(2)
  obtain w' where "WaitForSsh_loop m cmd t w1 =
      Some (Inl (DeviceConnectionError ''Ssh isn't ready in the remote instance.''), w')"
    "popen_calls w' = popen_calls w1 @ replicate m cmd"
    "timers w' = timers w1 @ concat (replicate m (armed t))"
    "sleeps w' = sleeps w1" "pending w' = rest" by auto
  with w1 rc(2) show ?case by (auto simp: n replicate_append_same)
qed

text \<open>
  Claim C5. \<open>WaitForSsh\<close> runs the probe \<open>uptime\<close> through \<open>_SshCall\<close>, each time with the
  same command and the same timeout, and never sleeps. When the first probes exit with
  nonzero return codes and the next one, within \<open>max_retry\<close>, exits with 0, it returns
  after exactly that many calls; when \<open>max_retry\<close> probes in a row exit with nonzero
  return codes, it raises \<open>DeviceConnectionError\<close> after exactly \<open>max_retry\<close> calls.
\<close>

theorem WaitForSsh_attempts:
  assumes "GetBaseCmd c self (SSH_BIN c) w = Inr base"
      and "\<forall>p \<in> set fails. \<exists>rc. poll_loop (observed timeout p) = Some rc \<and> rc \<noteq> 0"
  shows "(pending w = fails @ ok # rest \<and> poll_loop (observed timeout ok) = Some 0
            \<and> int (length fails) < max_retry \<longrightarrow>
          (\<exists>w'. WaitForSsh c self timeout max_retry w = Some (Inr (), w')
             \<and> popen_calls w' = popen_calls w @ replicate (length fails + 1) (base @ '' uptime'')
             \<and> timers w' = timers w @ concat (replicate (length fails + 1) (armed timeout))
             \<and> sleeps w' = sleeps w \<and> pending w' = rest))
       \<and> (pending w = fails @ rest \<and> int (length fails) = max_retry \<longrightarrow>
          (\<exists>w'. WaitForSsh c self timeout max_retry w =
                   Some (Inl (DeviceConnectionError ''Ssh isn't ready in the remote instance.''), w')
             \<and> popen_calls w' = popen_calls w @ replicate (length fails) (base @ '' uptime'')
             \<and> timers w' = timers w @ concat (replicate (length fails) (armed timeout))
             \<and> sleeps w' = sleeps w \<and> pending w' = rest))"
proof (intro conjI impI)
  assume a: "pending w = fails @ ok # rest \<and> poll_loop (observed timeout ok) = Some 0
               \<and> int (length fails) < max_retry"
  then have "length fails < nat max_retry" by linarith
  from WaitForSsh_loop_success [OF _ assms(2) _ this, of w ok rest "base @ '' uptime''"] a
  show "\<exists>w'. WaitForSsh c self timeout max_retry w = Some (Inr (), w')
             \<and> popen_calls w' = popen_calls w @ replicate (length fails + 1) (base @ '' uptime'')
             \<and> timers w' = timers w @ concat (replicate (length fails + 1) (armed timeout))
             \<and> sleeps w' = sleeps w \<and> pending w' = rest"
    by (simp add: WaitForSsh_def assms(1))
next
  assume a: "pending w = fails @ rest \<and> int (length fails) = max_retry"
  then have "length fails = nat max_retry" by linarith
  from WaitForSsh_loop_failure [OF _ assms(2) this, of w rest "base @ '' uptime''"] a
  show "\<exists>w'. WaitForSsh c self timeout max_retry w =
                   Some (Inl (DeviceConnectionError ''Ssh isn't ready in the remote instance.''), w')
             \<and> popen_calls w' = popen_calls w @ replicate (length fails) (base @ '' uptime'')
             \<and> timers w' = timers w @ concat (replicate (length fails) (armed timeout))
             \<and> sleeps w' = sleeps w \<and> pending w' = rest"
    by (simp add: WaitForSsh_def assms(1) \<open>length fails = nat max_retry\<close>)
qed

lemma example_base_cmd:
  "GetBaseCmd example_constants example_session ''ssh'' (world_with ps) =
     Inr ''/usr/bin/ssh -i /keys/id_rsa -q -o UserKnownHostsFile=/dev/null -o StrictHostKeyChecking=no -l vsoc-01 34.1.2.3''"
  by (simp add: GetBaseCmd_def join_base_cmd_def SSH_CMD_def SSH_IDENTITY_def
        example_constants_def example_session_def world_with_def find_executable_def
        Ssh_init_def IP_init_def py_or_def truthy_str_def fmt_s_def)

theorem WaitForSsh_attempts_witness:
  "(\<exists>w'. WaitForSsh example_constants example_session (Some 20) 4
            (world_with [exits_with 255, hangs, exits_with 0, exits_with 0]) = Some (Inr (), w')
        \<and> popen_calls w' = replicate 3
            ''/usr/bin/ssh -i /keys/id_rsa -q -o UserKnownHostsFile=/dev/null -o StrictHostKeyChecking=no -l vsoc-01 34.1.2.3 uptime''
        \<and> timers w' = [20, 20, 20] \<and> sleeps w' = [] \<and> pending w' = [exits_with 0])
   \<and> (\<exists>w'. WaitForSsh example_constants example_session (Some 20) 2
            (world_with [exits_with 255, hangs, exits_with 0]) =
              Some (Inl (DeviceConnectionError ''Ssh isn't ready in the remote instance.''), w')
        \<and> popen_calls w' = replicate 2
            ''/usr/bin/ssh -i /keys/id_rsa -q -o UserKnownHostsFile=/dev/null -o StrictHostKeyChecking=no -l vsoc-01 34.1.2.3 uptime''
        \<and> sleeps w' = [] \<and> pending w' = [exits_with 0])"
proof -
  have fails: "\<forall>p \<in> set [exits_with 255, hangs].
                 \<exists>rc. poll_loop (observed (Some 20) p) = Some rc \<and> rc \<noteq> 0"
    by (simp add: exits_with_def hangs_def observed_def)
  have ok: "poll_loop (observed (Some 20) (exits_with 0)) = Some 0"
    by (simp add: exits_with_def observed_def)
  have base: "GetBaseCmd example_constants example_session (SSH_BIN example_constants)
                (world_with ps) =
     Inr ''/usr/bin/ssh -i /keys/id_rsa -q -o UserKnownHostsFile=/dev/null -o StrictHostKeyChecking=no -l vsoc-01 34.1.2.3''"
    for ps using example_base_cmd [of ps] by (simp add: example_constants_def)
  have p1: "pending (world_with [exits_with 255, hangs, exits_with 0, exits_with 0])
              = [exits_with 255, hangs] @ exits_with 0 # [exits_with 0]
            \<and> poll_loop (observed (Some 20) (exits_with 0)) = Some 0
            \<and> int (length [exits_with 255, hangs]) < 4"
    using ok by (simp add: world_with_def)
  have p2: "pending (world_with [exits_with 255, hangs, exits_with 0])
              = [exits_with 255, hangs] @ [exits_with 0]
            \<and> int (length [exits_with 255, hangs]) = 2"
    by (simp add: world_with_def)
  from WaitForSsh_attempts [OF base fails, THEN conjunct1, rule_format, OF p1]
       WaitForSsh_attempts [OF base fails, THEN conjunct2, rule_format, OF p2]
  show ?thesis
    by (auto simp add: world_with_def armed_def numeral_3_eq_3 numeral_2_eq_2)
qed

section \<open>The retry engine on commands\<close>

lemma SshLogOutput_sleeps:
  "SshLogOutput cmd t s w = Some (r, w1) \<Longrightarrow> sleeps w1 = sleeps w"
  using SshLogOutput_returns by blast

lemma RunWithRetry_sleeps:
  assumes "RunWithRetry_loop retryable operation ctx w = Some (r, ctx', w')"
      and "\<forall>w r w'. operation w = Some (r, w') \<longrightarrow> sleeps w' = sleeps w"
      and "1 \<le> attempt_count ctx" and "attempt_count ctx \<le> max_retries ctx"
  shows "attempt_count ctx \<le> attempt_count ctx' \<and> attempt_count ctx' \<le> max_retries ctx
       \<and> sleeps w' = sleeps w @
           map (\<lambda>k. base_sleep_seconds ctx * backoff_factor ctx ^ k)
             [attempt_count ctx - 1 ..< attempt_count ctx' - 1]"
  using assms
proof (induction retryable operation ctx w rule: RunWithRetry_loop.induct)
  case (1 retryable operation ctx w)
  from "1.prems"(1) obtain x w1 where op: "operation w = Some (x, w1)"
    by (subst (asm) RunWithRetry_loop.simps) (auto split: option.splits)
  with "1.prems"(2) have sl: "sleeps w1 = sleeps w" by blast
  show ?case
  proof (cases x)
    case (Inr v)
    with op "1.prems"(1) have "ctx' = ctx" "w' = w1"
      by (subst (asm) RunWithRetry_loop.simps, simp)+
    with sl "1.prems" show ?thesis by simp
  next
    case (Inl e)
    show ?thesis
    proof (cases "retryable e \<and> attempt_count ctx < max_retries ctx")
      case False
      with Inl op "1.prems"(1) have "ctx' = ctx" "w' = w1"
        by (subst (asm) RunWithRetry_loop.simps, auto split: if_splits)+
      with sl "1.prems" show ?thesis by simp
    next
      case True
      let ?ctx = "ctx\<lparr>attempt_count := Suc (attempt_count ctx)\<rparr>"
      let ?d = "base_sleep_seconds ctx * backoff_factor ctx ^ (attempt_count ctx - 1)"
      have rec: "RunWithRetry_loop retryable operation ?ctx (sleep ?d w1) = Some (r, ctx', w')"
        using "1.prems"(1) op Inl True by (subst (asm) RunWithRetry_loop.simps) simp
      from True have re: "retryable e" and lt: "attempt_count ctx < max_retries ctx"
        by simp_all
      from "1.IH" [OF op refl Inl re lt rec "1.prems"(2)] lt
      have ih: "Suc (attempt_count ctx) \<le> attempt_count ctx'"
        "attempt_count ctx' \<le> max_retries ctx"
        "sleeps w' = sleeps (sleep ?d w1) @
           map (\<lambda>k. base_sleep_seconds ctx * backoff_factor ctx ^ k)
             [attempt_count ctx ..< attempt_count ctx' - 1]"
        by simp_all
      have "[attempt_count ctx - 1 ..< attempt_count ctx' - 1] =
            (attempt_count ctx - 1) # [attempt_count ctx ..< attempt_count ctx' - 1]"
        using ih(1) "1.prems"(3) by (simp add: upt_conv_Cons)
      with ih sl show ?thesis by (simp add: sleep_def)
    qed
  qed
qed

lemma RunWithRetry_ssh_shape:
  assumes "RunWithRetry_loop retryable operation ctx w = Some (r, ctx', w')"
      and "retryable = isinstance_DeviceConnectionError"
      and "operation = SshLogOutput cmd t s"
  shows "\<exists>fails final rc.
           pending w = fails @ final # pending w'
         \<and> (\<forall>p \<in> set fails. final_status (observed t p) = Some 255)
         \<and> final_status (observed t final) = Some rc
         \<and> attempt_count ctx' = attempt_count ctx + length fails
         \<and> (rc = 255 \<longrightarrow> \<not> attempt_count ctx' < max_retries ctx)
         \<and> (fails \<noteq> [] \<longrightarrow> attempt_count ctx' \<le> max_retries ctx)
         \<and> r = (if rc = 0 then Inr ()
                 else if rc = 255 then Inl (RetriesExhausted (attempt_count ctx'))
                 else Inl (CalledProcessError rc cmd))
         \<and> popen_calls w' = popen_calls w @ replicate (length fails + 1) cmd"
  using assms
proof (induction retryable operation ctx w rule: RunWithRetry_loop.induct)
  case (1 retryable operation ctx w)
  from "1.prems"(1) obtain x w1 where op: "operation w = Some (x, w1)"
    by (subst (asm) RunWithRetry_loop.simps) (auto split: option.splits)
  from SshLogOutput_returns [of cmd t s w x w1] op "1.prems"(3)
  obtain p rc where p: "pending w = p # pending w1" "final_status (observed t p) = Some rc"
    "x = (if rc = 0 then Inr ()
          else if rc = 255 then
            Inl (DeviceConnectionError (''Failed to send command to instance ('' @ cmd @ '')''))
          else Inl (CalledProcessError rc cmd))"
    "popen_calls w1 = popen_calls w @ [cmd]" by auto
  show ?case
  proof (cases "rc = 255 \<and> attempt_count ctx < max_retries ctx")
    case False
    have res: "r = (if rc = 0 then Inr ()
                 else if rc = 255 then Inl (RetriesExhausted (attempt_count ctx))
                 else Inl (CalledProcessError rc cmd)) \<and> ctx' = ctx \<and> w' = w1"
      using "1.prems"(1,2) op p(3) False
      by (subst (asm) RunWithRetry_loop.simps) (auto split: if_splits)
    have "pending w = [] @ p # pending w'
         \<and> (\<forall>q \<in> set []. final_status (observed t q) = Some 255)
         \<and> final_status (observed t p) = Some rc
         \<and> attempt_count ctx' = attempt_count ctx + length ([] :: process list)
         \<and> (rc = 255 \<longrightarrow> \<not> attempt_count ctx' < max_retries ctx)
         \<and> (([] :: process list) \<noteq> [] \<longrightarrow> attempt_count ctx' \<le> max_retries ctx)
         \<and> r = (if rc = 0 then Inr ()
                 else if rc = 255 then Inl (RetriesExhausted (attempt_count ctx'))
                 else Inl (CalledProcessError rc cmd))
         \<and> popen_calls w' = popen_calls w @ replicate (length ([] :: process list) + 1) cmd"
      using res p False by simp
    then show ?thesis by blast
  next
    case True
    let ?e = "DeviceConnectionError (''Failed to send command to instance ('' @ cmd @ '')'')"
    let ?ctx = "ctx\<lparr>attempt_count := Suc (attempt_count ctx)\<rparr>"
    let ?d = "base_sleep_seconds ctx * backoff_factor ctx ^ (attempt_count ctx - 1)"
    have x: "x = Inl ?e" using p(3) True by simp
    have re: "retryable ?e" using "1.prems"(2) by simp
    have rec: "RunWithRetry_loop retryable operation ?ctx (sleep ?d w1) = Some (r, ctx', w')"
      using "1.prems"(1) op x re True by (subst (asm) RunWithRetry_loop.simps) simp
    from True have lt: "attempt_count ctx < max_retries ctx" by simp
    from "1.IH" [OF op refl x re lt rec "1.prems"(2,3)]
    obtain fails final rc' where ih:
      "pending (sleep ?d w1) = fails @ final # pending w'"
      "\<forall>q \<in> set fails. final_status (observed t q) = Some 255"
      "final_status (observed t final) = Some rc'"
      "attempt_count ctx' = attempt_count ?ctx + length fails"
      "rc' = 255 \<longrightarrow> \<not> attempt_count ctx' < max_retries ?ctx"
      "fails \<noteq> [] \<longrightarrow> attempt_count ctx' \<le> max_retries ?ctx"
      "r = (if rc' = 0 then Inr ()
            else if rc' = 255 then Inl (RetriesExhausted (attempt_count ctx'))
            else Inl (CalledProcessError rc' cmd))"
      "popen_calls w' = popen_calls (sleep ?d w1) @ replicate (length fails + 1) cmd"
      by blast
    have le: "attempt_count ctx' \<le> max_retries ctx"
    proof (cases "fails = []")
      case True
      with ih(4) \<open>rc = 255 \<and> attempt_count ctx < max_retries ctx\<close> show ?thesis by simp
    next
      case False
      with ih(6) show ?thesis by simp
    qed
    have "pending w = (p # fails) @ final # pending w'
         \<and> (\<forall>q \<in> set (p # fails). final_status (observed t q) = Some 255)
         \<and> final_status (observed t final) = Some rc'
         \<and> attempt_count ctx' = attempt_count ctx + length (p # fails)
         \<and> (rc' = 255 \<longrightarrow> \<not> attempt_count ctx' < max_retries ctx)
         \<and> (p # fails \<noteq> [] \<longrightarrow> attempt_count ctx' \<le> max_retries ctx)
         \<and> r = (if rc' = 0 then Inr ()
                 else if rc' = 255 then Inl (RetriesExhausted (attempt_count ctx'))
                 else Inl (CalledProcessError rc' cmd))
         \<and> popen_calls w' = popen_calls w @ replicate (length (p # fails) + 1) cmd"
      using ih p True le by (simp add: sleep_def replicate_append_same)
    then show ?thesis by blast
  qed
qed

lemma RunWithRetry_ssh_run:
  assumes "pending w = fails @ final # rest"
      and "\<forall>p \<in> set fails. final_status (observed t p) = Some 255"
      and "final_status (observed t final) = Some rc"
      and "fails \<noteq> [] \<longrightarrow> attempt_count ctx + length fails \<le> max_retries ctx"
      and "rc = 255 \<longrightarrow> max_retries ctx \<le> attempt_count ctx + length fails"
  shows "\<exists>w'. RunWithRetry_loop isinstance_DeviceConnectionError (SshLogOutput cmd t s) ctx w =
                 Some (if rc = 0 then Inr ()
                       else if rc = 255 then
                         Inl (RetriesExhausted (attempt_count ctx + length fails))
                       else Inl (CalledProcessError rc cmd),
                       ctx\<lparr>attempt_count := attempt_count ctx + length fails\<rparr>, w')
              \<and> pending w' = rest
              \<and> popen_calls w' = popen_calls w @ replicate (length fails + 1) cmd"
  using assms
proof (induction fails arbitrary: ctx w)
  case Nil
  then have "pending w = final # rest" by simp
  from SshLogOutput_Some [OF this Nil.prems(3), of cmd s]
  obtain w1 where w1: "SshLogOutput cmd t s w =
      Some (if rc = 0 then Inr ()
            else if rc = 255 then
              Inl (DeviceConnectionError (''Failed to send command to instance ('' @ cmd @ '')''))
            else Inl (CalledProcessError rc cmd), w1)" "pending w1 = rest"
    "popen_calls w1 = popen_calls w @ [cmd]" by blast
  show ?case
    using w1 Nil.prems(5) by (subst RunWithRetry_loop.simps) auto
next
  case (Cons p fails)
  let ?ctx = "ctx\<lparr>attempt_count := Suc (attempt_count ctx)\<rparr>"
  let ?d = "base_sleep_seconds ctx * backoff_factor ctx ^ (attempt_count ctx - 1)"
  from Cons.prems(1) have pw: "pending w = p # (fails @ final # rest)" by simp
  from Cons.prems(2) have p: "final_status (observed t p) = Some 255" by simp
  from SshLogOutput_Some [OF pw p, of cmd s]
  obtain w1 where w1: "SshLogOutput cmd t s w =
      Some (Inl (DeviceConnectionError (''Failed to send command to instance ('' @ cmd @ '')'')), w1)"
    "pending w1 = fails @ final # rest" "popen_calls w1 = popen_calls w @ [cmd]" by auto
  have lt: "attempt_count ctx < max_retries ctx" using Cons.prems(4) by simp
  have step: "RunWithRetry_loop isinstance_DeviceConnectionError (SshLogOutput cmd t s) ctx w =
              RunWithRetry_loop isinstance_DeviceConnectionError (SshLogOutput cmd t s) ?ctx
                (sleep ?d w1)"
    using w1(1) lt by (subst RunWithRetry_loop.simps) simp
  have "pending (sleep ?d w1) = fails @ final # rest" using w1(2) by (simp add: sleep_def)
  from Cons.IH [OF this _ Cons.prems(3), of ?ctx] Cons.prems(2,4,5) w1(3)
  show ?case by (auto simp add: step sleep_def replicate_append_same)
qed

lemma sleep_schedule_sorted:
  "1 \<le> f \<Longrightarrow> 0 \<le> b \<Longrightarrow> sorted (sleep_schedule b f n)"
  unfolding sleep_schedule_def sorted_map
  by (rule sorted_wrt_mono_rel [OF _ sorted_upt])
     (auto intro!: mult_left_mono power_increasing)

lemma sleep_schedule_nth:
  "k < n - 1 \<Longrightarrow> sleep_schedule b f n ! k = b * f ^ k"
  by (simp add: sleep_schedule_def)

lemma ShellCmdWithRetry_Some:
  "(ShellCmdWithRetry c cmd t s w = Some (r, w')) =
   (\<exists>ctx'. RunWithRetry_loop isinstance_DeviceConnectionError (SshLogOutput cmd t s)
             \<lparr>attempt_count = 1, max_retries = SSH_CMD_MAX_RETRY,
              base_sleep_seconds = SSH_CMD_RETRY_SLEEP,
              backoff_factor = DEFAULT_RETRY_BACKOFF_FACTOR c\<rparr> w = Some (r, ctx', w'))"
  by (auto simp: ShellCmdWithRetry_def RetryExceptionType_def split: option.splits)

lemma ShellCmdWithRetry_returns:
  assumes "ShellCmdWithRetry c cmd t s w = Some (r, w')"
  shows "\<exists>fails final rc.
           pending w = fails @ final # pending w'
         \<and> (\<forall>p \<in> set fails. final_status (observed t p) = Some 255)
         \<and> final_status (observed t final) = Some rc
         \<and> length fails < SSH_CMD_MAX_RETRY
         \<and> popen_calls w' = popen_calls w @ replicate (length fails + 1) cmd
         \<and> (rc = 255 \<longrightarrow> length fails + 1 = SSH_CMD_MAX_RETRY)
         \<and> r = (if rc = 0 then Inr ()
                 else if rc = 255 then Inl (RetriesExhausted SSH_CMD_MAX_RETRY)
                 else Inl (CalledProcessError rc cmd))
         \<and> sleeps w' = sleeps w @
             sleep_schedule SSH_CMD_RETRY_SLEEP (DEFAULT_RETRY_BACKOFF_FACTOR c) (length fails + 1)"
proof -
  let ?ctx = "\<lparr>attempt_count = 1, max_retries = SSH_CMD_MAX_RETRY,
               base_sleep_seconds = SSH_CMD_RETRY_SLEEP,
               backoff_factor = DEFAULT_RETRY_BACKOFF_FACTOR c\<rparr>"
  from assms obtain ctx' where run:
    "RunWithRetry_loop isinstance_DeviceConnectionError (SshLogOutput cmd t s) ?ctx w
       = Some (r, ctx', w')"
    by (auto simp: ShellCmdWithRetry_Some)
  from RunWithRetry_ssh_shape [OF this refl refl]
  obtain fails final rc where sh:
    "pending w = fails @ final # pending w'"
    "\<forall>p \<in> set fails. final_status (observed t p) = Some 255"
    "final_status (observed t final) = Some rc"
    "attempt_count ctx' = attempt_count ?ctx + length fails"
    "rc = 255 \<longrightarrow> \<not> attempt_count ctx' < max_retries ?ctx"
    "fails \<noteq> [] \<longrightarrow> attempt_count ctx' \<le> max_retries ?ctx"
    "r = (if rc = 0 then Inr ()
          else if rc = 255 then Inl (RetriesExhausted (attempt_count ctx'))
          else Inl (CalledProcessError rc cmd))"
    "popen_calls w' = popen_calls w @ replicate (length fails + 1) cmd"
    by blast
  have lt: "length fails < SSH_CMD_MAX_RETRY"
    using sh(4,6) by (cases "fails = []") (simp_all add: SSH_CMD_MAX_RETRY_def)
  have ex: "rc = 255 \<longrightarrow> length fails + 1 = SSH_CMD_MAX_RETRY"
    using sh(4,5) lt by auto
  have r: "r = (if rc = 0 then Inr ()
             else if rc = 255 then Inl (RetriesExhausted SSH_CMD_MAX_RETRY)
             else Inl (CalledProcessError rc cmd))"
    using sh(7,4) ex by auto
  have "\<forall>w r w'. SshLogOutput cmd t s w = Some (r, w') \<longrightarrow> sleeps w' = sleeps w"
    using SshLogOutput_sleeps by blast
  from RunWithRetry_sleeps [OF run this]
  have "sleeps w' = sleeps w @
          sleep_schedule SSH_CMD_RETRY_SLEEP (DEFAULT_RETRY_BACKOFF_FACTOR c) (length fails + 1)"
    using sh(4) by (simp add: SSH_CMD_MAX_RETRY_def sleep_schedule_def)
  with sh(1,2,3,8) lt ex r show ?thesis by blast
qed

text \<open>
  Claim C3. A run of \<open>ShellCmdWithRetry\<close> that returns has made at most
  \<open>_SSH_CMD_MAX_RETRY\<close> invocations of the same command, and every invocation but the
  last one ended with return code 255 (a \<open>DeviceConnectionError\<close>): nothing else
  triggers a re-invocation. A first attempt that exits with a code other than 0 and 255
  gives \<open>CalledProcessError\<close> with that code after one invocation and no sleep. When
  \<open>_SSH_CMD_MAX_RETRY\<close> attempts in a row exit with 255 the caller gets a connectivity
  error after exactly that many invocations. \<open>Run\<close> is \<open>ShellCmdWithRetry\<close> on the base
  command followed by the target command.
\<close>

theorem ShellCmdWithRetry_retries_transport_failures_only:
  "(ShellCmdWithRetry c cmd timeout show_output w = Some (r, w') \<longrightarrow>
      (\<exists>fails final rc.
           pending w = fails @ final # pending w'
         \<and> (\<forall>p \<in> set fails. final_status (observed timeout p) = Some 255)
         \<and> final_status (observed timeout final) = Some rc
         \<and> length fails < SSH_CMD_MAX_RETRY
         \<and> popen_calls w' = popen_calls w @ replicate (length fails + 1) cmd
         \<and> (rc = 255 \<longrightarrow> length fails + 1 = SSH_CMD_MAX_RETRY)
         \<and> r = (if rc = 0 then Inr ()
                 else if rc = 255 then Inl (RetriesExhausted SSH_CMD_MAX_RETRY)
                 else Inl (CalledProcessError rc cmd))))
   \<and> (pending w = first # rest \<and> final_status (observed timeout first) = Some code
        \<and> code \<noteq> 0 \<and> code \<noteq> 255 \<longrightarrow>
      (\<exists>w'. ShellCmdWithRetry c cmd timeout show_output w =
               Some (Inl (CalledProcessError code cmd), w')
         \<and> popen_calls w' = popen_calls w @ [cmd] \<and> sleeps w' = sleeps w \<and> pending w' = rest))
   \<and> (pending w = failing @ rest \<and> length failing = SSH_CMD_MAX_RETRY
        \<and> (\<forall>p \<in> set failing. final_status (observed timeout p) = Some 255) \<longrightarrow>
      (\<exists>e w'. ShellCmdWithRetry c cmd timeout show_output w = Some (Inl e, w')
         \<and> connectivity_error e
         \<and> popen_calls w' = popen_calls w @ replicate SSH_CMD_MAX_RETRY cmd \<and> pending w' = rest))
   \<and> (GetBaseCmd c self (SSH_BIN c) w = Inr base \<longrightarrow>
      Run c self target_command timeout show_output w =
        ShellCmdWithRetry c (base @ '' '' @ target_command) timeout show_output w)"
proof (intro conjI impI)
  let ?ctx = "\<lparr>attempt_count = 1, max_retries = SSH_CMD_MAX_RETRY,
               base_sleep_seconds = SSH_CMD_RETRY_SLEEP,
               backoff_factor = DEFAULT_RETRY_BACKOFF_FACTOR c\<rparr>"
  {
    assume "ShellCmdWithRetry c cmd timeout show_output w = Some (r, w')"
    from ShellCmdWithRetry_returns [OF this]
    show "\<exists>fails final rc.
           pending w = fails @ final # pending w'
         \<and> (\<forall>p \<in> set fails. final_status (observed timeout p) = Some 255)
         \<and> final_status (observed timeout final) = Some rc
         \<and> length fails < SSH_CMD_MAX_RETRY
         \<and> popen_calls w' = popen_calls w @ replicate (length fails + 1) cmd
         \<and> (rc = 255 \<longrightarrow> length fails + 1 = SSH_CMD_MAX_RETRY)
         \<and> r = (if rc = 0 then Inr ()
                 else if rc = 255 then Inl (RetriesExhausted SSH_CMD_MAX_RETRY)
                 else Inl (CalledProcessError rc cmd))"
      by blast
  }
  {
    assume a: "pending w = first # rest \<and> final_status (observed timeout first) = Some code
                 \<and> code \<noteq> 0 \<and> code \<noteq> 255"
    then have "pending w = [] @ first # rest" by simp
    from RunWithRetry_ssh_run [OF this, of timeout code ?ctx cmd show_output] a
    obtain w1 where w1:
      "RunWithRetry_loop isinstance_DeviceConnectionError (SshLogOutput cmd timeout show_output)
         ?ctx w = Some (Inl (CalledProcessError code cmd), ?ctx, w1)"
      "pending w1 = rest" "popen_calls w1 = popen_calls w @ [cmd]"
      by auto
    have "\<forall>w r w'. SshLogOutput cmd timeout show_output w = Some (r, w') \<longrightarrow> sleeps w' = sleeps w"
      using SshLogOutput_sleeps by blast
    from RunWithRetry_sleeps [OF w1(1) this]
    have "sleeps w1 = sleeps w" by (simp add: SSH_CMD_MAX_RETRY_def)
    with w1
    show "\<exists>w'. ShellCmdWithRetry c cmd timeout show_output w =
               Some (Inl (CalledProcessError code cmd), w')
         \<and> popen_calls w' = popen_calls w @ [cmd] \<and> sleeps w' = sleeps w \<and> pending w' = rest"
      by (auto simp: ShellCmdWithRetry_Some)
  }
  {
    assume a: "pending w = failing @ rest \<and> length failing = SSH_CMD_MAX_RETRY
        \<and> (\<forall>p \<in> set failing. final_status (observed timeout p) = Some 255)"
    then obtain fs l where fs: "failing = fs @ [l]" "length fs = 3"
      by (cases failing rule: rev_cases) (auto simp: SSH_CMD_MAX_RETRY_def)
    with a have "pending w = fs @ l # rest"
      "\<forall>p \<in> set fs. final_status (observed timeout p) = Some 255"
      "final_status (observed timeout l) = Some 255" by auto
    from RunWithRetry_ssh_run [OF this, of ?ctx cmd show_output] fs(2)
    obtain w1 where
      "RunWithRetry_loop isinstance_DeviceConnectionError (SshLogOutput cmd timeout show_output)
         ?ctx w = Some (Inl (RetriesExhausted 4), ?ctx\<lparr>attempt_count := 4\<rparr>, w1)"
      "pending w1 = rest" "popen_calls w1 = popen_calls w @ replicate 4 cmd"
      by (auto simp: SSH_CMD_MAX_RETRY_def)
    then have "ShellCmdWithRetry c cmd timeout show_output w = Some (Inl (RetriesExhausted 4), w1)
         \<and> connectivity_error (RetriesExhausted 4)
         \<and> popen_calls w1 = popen_calls w @ replicate SSH_CMD_MAX_RETRY cmd \<and> pending w1 = rest"
      by (auto simp: ShellCmdWithRetry_Some SSH_CMD_MAX_RETRY_def)
    then show "\<exists>e w'. ShellCmdWithRetry c cmd timeout show_output w = Some (Inl e, w')
         \<and> connectivity_error e
         \<and> popen_calls w' = popen_calls w @ replicate SSH_CMD_MAX_RETRY cmd \<and> pending w' = rest"
      by blast
  }
  {
    assume "GetBaseCmd c self (SSH_BIN c) w = Inr base"
    then show "Run c self target_command timeout show_output w =
        ShellCmdWithRetry c (base @ '' '' @ target_command) timeout show_output w"
      by (simp add: Run_def)
  }
qed

lemma exits_with_status [simp]:
  "final_status (observed None (exits_with rc)) = Some rc"
  by (simp add: exits_with_def observed_def final_status_def ends_loop_def)

theorem ShellCmdWithRetry_retries_transport_failures_only_witness:
  "(\<exists>w'. ShellCmdWithRetry example_constants ''ssh host false'' None False
            (world_with [exits_with 1, exits_with 0]) =
              Some (Inl (CalledProcessError 1 ''ssh host false''), w')
        \<and> popen_calls w' = [''ssh host false''] \<and> sleeps w' = [] \<and> pending w' = [exits_with 0]
        \<and> length (popen_calls w') \<le> 4)
   \<and> (\<exists>e w'. ShellCmdWithRetry example_constants ''ssh host true'' None False
            (world_with [exits_with 255, exits_with 255, exits_with 255, exits_with 255,
                         exits_with 0]) = Some (Inl e, w')
        \<and> connectivity_error e
        \<and> popen_calls w' = replicate 4 ''ssh host true'' \<and> pending w' = [exits_with 0])
   \<and> Run example_constants example_session ''true'' None False (world_with []) =
       ShellCmdWithRetry example_constants
         ''/usr/bin/ssh -i /keys/id_rsa -q -o UserKnownHostsFile=/dev/null -o StrictHostKeyChecking=no -l vsoc-01 34.1.2.3 true''
         None False (world_with [])"
proof -
  let ?w1 = "world_with [exits_with 1, exits_with 0]"
  let ?w2 = "world_with [exits_with 255, exits_with 255, exits_with 255, exits_with 255,
                         exits_with 0]"
  note thm1 = ShellCmdWithRetry_retries_transport_failures_only
                [where w = ?w1 and c = example_constants and cmd = "''ssh host false''"
                   and timeout = None and show_output = False]
  have "pending ?w1 = exits_with 1 # [exits_with 0]
        \<and> final_status (observed None (exits_with 1)) = Some 1 \<and> (1::int) \<noteq> 0 \<and> (1::int) \<noteq> 255"
    by (simp add: world_with_def)
  from thm1 [THEN conjunct2, THEN conjunct1, rule_format, OF this]
  obtain w' where w': "ShellCmdWithRetry example_constants ''ssh host false'' None False ?w1 =
              Some (Inl (CalledProcessError 1 ''ssh host false''), w')"
     "popen_calls w' = popen_calls ?w1 @ [''ssh host false'']" "sleeps w' = sleeps ?w1"
     "pending w' = [exits_with 0]" by blast
  from thm1 [THEN conjunct1, rule_format, OF w'(1)]
  have "length (popen_calls w') \<le> 4"
    by (auto simp: world_with_def SSH_CMD_MAX_RETRY_def)
  with w' have a: "\<exists>w'. ShellCmdWithRetry example_constants ''ssh host false'' None False ?w1 =
              Some (Inl (CalledProcessError 1 ''ssh host false''), w')
        \<and> popen_calls w' = [''ssh host false''] \<and> sleeps w' = [] \<and> pending w' = [exits_with 0]
        \<and> length (popen_calls w') \<le> 4"
    by (auto simp: world_with_def)
  have "pending ?w2 = [exits_with 255, exits_with 255, exits_with 255, exits_with 255]
                        @ [exits_with 0]
        \<and> length [exits_with 255, exits_with 255, exits_with 255, exits_with 255]
            = SSH_CMD_MAX_RETRY
        \<and> (\<forall>p \<in> set [exits_with 255, exits_with 255, exits_with 255, exits_with 255].
              final_status (observed None p) = Some 255)"
    by (simp add: world_with_def SSH_CMD_MAX_RETRY_def)
  from ShellCmdWithRetry_retries_transport_failures_only
         [where w = ?w2 and c = example_constants and cmd = "''ssh host true''"
            and timeout = None and show_output = False,
          THEN conjunct2, THEN conjunct2, THEN conjunct1, rule_format, OF this]
  have b: "\<exists>e w'. ShellCmdWithRetry example_constants ''ssh host true'' None False ?w2
             = Some (Inl e, w')
        \<and> connectivity_error e
        \<and> popen_calls w' = replicate 4 ''ssh host true'' \<and> pending w' = [exits_with 0]"
    by (simp add: world_with_def SSH_CMD_MAX_RETRY_def)
  have "GetBaseCmd example_constants example_session (SSH_BIN example_constants) (world_with [])
      = Inr ''/usr/bin/ssh -i /keys/id_rsa -q -o UserKnownHostsFile=/dev/null -o StrictHostKeyChecking=no -l vsoc-01 34.1.2.3''"
    using example_base_cmd [of "[]"] by (simp add: example_constants_def)
  from ShellCmdWithRetry_retries_transport_failures_only
         [THEN conjunct2, THEN conjunct2, THEN conjunct2, rule_format, OF this,
          of "''true''" None False]
  have c: "Run example_constants example_session ''true'' None False (world_with []) =
       ShellCmdWithRetry example_constants
         ''/usr/bin/ssh -i /keys/id_rsa -q -o UserKnownHostsFile=/dev/null -o StrictHostKeyChecking=no -l vsoc-01 34.1.2.3 true''
         None False (world_with [])"
    by simp
  from a b c show ?thesis by blast
qed

section \<open>The sleeps between attempts\<close>

lemma ShellCmdWithRetry_run:
  assumes "pending w = fails @ final # rest"
      and "\<forall>p \<in> set fails. final_status (observed t p) = Some 255"
      and "final_status (observed t final) = Some rc"
      and "length fails < SSH_CMD_MAX_RETRY"
      and "rc = 255 \<longrightarrow> length fails + 1 = SSH_CMD_MAX_RETRY"
  shows "\<exists>w'. ShellCmdWithRetry c cmd t s w =
                 Some (if rc = 0 then Inr ()
                       else if rc = 255 then Inl (RetriesExhausted SSH_CMD_MAX_RETRY)
                       else Inl (CalledProcessError rc cmd), w')
              \<and> pending w' = rest
              \<and> popen_calls w' = popen_calls w @ replicate (length fails + 1) cmd"
proof -
  let ?ctx = "\<lparr>attempt_count = 1, max_retries = SSH_CMD_MAX_RETRY,
               base_sleep_seconds = SSH_CMD_RETRY_SLEEP,
               backoff_factor = DEFAULT_RETRY_BACKOFF_FACTOR c\<rparr>"
  from RunWithRetry_ssh_run [OF assms(1,2,3), of ?ctx cmd s] assms(4,5)
  obtain w' where
    "RunWithRetry_loop isinstance_DeviceConnectionError (SshLogOutput cmd t s) ?ctx w =
       Some (if rc = 0 then Inr ()
             else if rc = 255 then Inl (RetriesExhausted (1 + length fails))
             else Inl (CalledProcessError rc cmd),
             ?ctx\<lparr>attempt_count := 1 + length fails\<rparr>, w')"
    "pending w' = rest" "popen_calls w' = popen_calls w @ replicate (length fails + 1) cmd"
    by auto
  with assms(5) show ?thesis
    by (auto simp: ShellCmdWithRetry_Some)
qed

lemma RunWithRetry_sleeps_any:
  assumes "RunWithRetry_loop retryable operation ctx w = Some (r, ctx', w')"
      and "\<forall>w r w'. operation w = Some (r, w') \<longrightarrow> sleeps w' = sleeps w"
      and "1 \<le> attempt_count ctx"
  shows "attempt_count ctx \<le> attempt_count ctx'
       \<and> attempt_count ctx' \<le> max (attempt_count ctx) (max_retries ctx)
       \<and> sleeps w' = sleeps w @
           map (\<lambda>k. base_sleep_seconds ctx * backoff_factor ctx ^ k)
             [attempt_count ctx - 1 ..< attempt_count ctx' - 1]"
  using assms
proof (induction retryable operation ctx w rule: RunWithRetry_loop.induct)
  case (1 retryable operation ctx w)
  from "1.prems"(1) obtain x w1 where op: "operation w = Some (x, w1)"
    by (subst (asm) RunWithRetry_loop.simps) (auto split: option.splits)
  with "1.prems"(2) have sl: "sleeps w1 = sleeps w" by blast
  show ?case
  proof (cases x)
    case (Inr v)
    with op "1.prems"(1) have "ctx' = ctx" "w' = w1"
      by (subst (asm) RunWithRetry_loop.simps, simp)+
    with sl show ?thesis by simp
  next
    case (Inl e)
    show ?thesis
    proof (cases "retryable e \<and> attempt_count ctx < max_retries ctx")
      case False
      with Inl op "1.prems"(1) have "ctx' = ctx" "w' = w1"
        by (subst (asm) RunWithRetry_loop.simps, auto split: if_splits)+
      with sl show ?thesis by simp
    next
      case True
      let ?ctx = "ctx\<lparr>attempt_count := Suc (attempt_count ctx)\<rparr>"
      let ?d = "base_sleep_seconds ctx * backoff_factor ctx ^ (attempt_count ctx - 1)"
      have rec: "RunWithRetry_loop retryable operation ?ctx (sleep ?d w1) = Some (r, ctx', w')"
        using "1.prems"(1) op Inl True by (subst (asm) RunWithRetry_loop.simps) simp
      from True have re: "retryable e" and lt: "attempt_count ctx < max_retries ctx"
        by simp_all
      from "1.IH" [OF op refl Inl re lt rec "1.prems"(2)] lt
      have ih: "Suc (attempt_count ctx) \<le> attempt_count ctx'"
        "attempt_count ctx' \<le> max_retries ctx"
        "sleeps w' = sleeps (sleep ?d w1) @
           map (\<lambda>k. base_sleep_seconds ctx * backoff_factor ctx ^ k)
             [attempt_count ctx ..< attempt_count ctx' - 1]"
        by simp_all
      have "[attempt_count ctx - 1 ..< attempt_count ctx' - 1] =
            (attempt_count ctx - 1) # [attempt_count ctx ..< attempt_count ctx' - 1]"
        using ih(1) "1.prems"(3) by (simp add: upt_conv_Cons)
      with ih sl show ?thesis by (simp add: sleep_def)
    qed
  qed
qed

text \<open>
  Claim C8 as stated does not hold on the engine. With base sleep 3 and backoff factor
  1/2, two retries sleep 3 and then 3/2 seconds: the interval decreases. With
  \<open>max_retries = 0\<close> the operation is still invoked once: the attempt count, 1, exceeds
  \<open>max_retries\<close>.
\<close>

theorem RunWithRetry_sleep_schedule_counterexample:
  "map_option (sleeps \<circ> snd \<circ> snd)
     (RunWithRetry_loop isinstance_DeviceConnectionError
        (SshLogOutput ''ssh host true'' None False)
        \<lparr>attempt_count = 1, max_retries = 4, base_sleep_seconds = 3, backoff_factor = 1 / 2\<rparr>
        (world_with [exits_with 255, exits_with 255, exits_with 0]))
     = Some [3, 3 / 2]
   \<and> \<not> (3 :: real) \<le> 3 / 2
   \<and> map_option (attempt_count \<circ> fst \<circ> snd)
     (RunWithRetry_loop isinstance_DeviceConnectionError
        (SshLogOutput ''ssh host true'' None False)
        \<lparr>attempt_count = 1, max_retries = 0, base_sleep_seconds = 3, backoff_factor = 1\<rparr>
        (world_with [exits_with 255]))
     = Some 1
   \<and> \<not> (1 :: nat) \<le> 0"
  by (simp add: RunWithRetry_loop.simps SshLogOutput_def Popen_def logger_info_def
        logger_debug_def Timer_start_def observed_def world_with_def exits_with_def sleep_def
        strip_def isspace_def)

text \<open>
  Claim C8, as amended. For every operation that does not sleep itself and every run of
  the engine from attempt 1, with \<open>n\<close> the number of attempts: the sleeps of the run are
  \<open>baseSleep * backoffFactor ^ k\<close> for \<open>k = 0..n-2\<close>, all equal when the factor is 1;
  they never decrease when the factor is at least 1 and the base sleep is not negative;
  \<open>n\<close> is at least 1 and never exceeds \<open>max_retries\<close> when \<open>max_retries\<close> is at least 1
  (one attempt is made also when \<open>max_retries\<close> is 0). In \<open>ShellCmdWithRetry\<close> the base
  sleep is 3 (\<open>_SSH_CMD_RETRY_SLEEP\<close>), the factor is the default one, and the number of
  invocations of the command never exceeds \<open>_SSH_CMD_MAX_RETRY\<close>.
\<close>

theorem RunWithRetry_sleep_schedule:
  "((\<forall>w r w'. operation w = Some (r, w') \<longrightarrow> sleeps w' = sleeps w)
      \<and> RunWithRetry_loop retryable operation
           \<lparr>attempt_count = 1, max_retries = m, base_sleep_seconds = b, backoff_factor = f\<rparr> w
          = Some (r, ctx', w') \<longrightarrow>
      1 \<le> attempt_count ctx' \<and> attempt_count ctx' \<le> max 1 m
      \<and> sleeps w' = sleeps w @ sleep_schedule b f (attempt_count ctx'))
   \<and> length (sleep_schedule b f n) = n - 1
   \<and> (\<forall>k < n - 1. sleep_schedule b f n ! k = b * f ^ k)
   \<and> (f = 1 \<longrightarrow> sleep_schedule b f n = replicate (n - 1) b)
   \<and> (1 \<le> f \<and> 0 \<le> b \<longrightarrow> sorted (sleep_schedule b f n))
   \<and> (ShellCmdWithRetry c cmd timeout show_output v = Some (res, v') \<longrightarrow>
        (\<exists>n. 1 \<le> n \<and> n \<le> SSH_CMD_MAX_RETRY
           \<and> popen_calls v' = popen_calls v @ replicate n cmd
           \<and> sleeps v' = sleeps v @ sleep_schedule 3 (DEFAULT_RETRY_BACKOFF_FACTOR c) n))"
proof (intro conjI impI allI)
  let ?ctx = "\<lparr>attempt_count = 1, max_retries = m, base_sleep_seconds = b, backoff_factor = f\<rparr>"
  {
    assume a: "(\<forall>w r w'. operation w = Some (r, w') \<longrightarrow> sleeps w' = sleeps w)
      \<and> RunWithRetry_loop retryable operation ?ctx w = Some (r, ctx', w')"
    then have run: "RunWithRetry_loop retryable operation ?ctx w = Some (r, ctx', w')"
      and ns: "\<forall>w r w'. operation w = Some (r, w') \<longrightarrow> sleeps w' = sleeps w"
      by blast+
    from RunWithRetry_sleeps_any [OF run ns]
    have r: "1 \<le> attempt_count ctx'" "attempt_count ctx' \<le> max 1 m"
      "sleeps w' = sleeps w @ map (\<lambda>k. b * f ^ k) [0 ..< attempt_count ctx' - 1]"
      by simp_all
    from r(1) show "1 \<le> attempt_count ctx'" .
    from r(2) show "attempt_count ctx' \<le> max 1 m" .
    from r(3) show "sleeps w' = sleeps w @ sleep_schedule b f (attempt_count ctx')"
      by (simp add: sleep_schedule_def)
  }
  show "length (sleep_schedule b f n) = n - 1"
    by (simp add: sleep_schedule_def)
  show "sleep_schedule b f n ! k = b * f ^ k" if "k < n - 1" for k
    using that by (rule sleep_schedule_nth)
  show "sleep_schedule b f n = replicate (n - 1) b" if "f = 1"
    using that by (simp add: sleep_schedule_def map_replicate_const)
  show "sorted (sleep_schedule b f n)" if "1 \<le> f \<and> 0 \<le> b"
    using that by (simp add: sleep_schedule_sorted)
  {
    assume "ShellCmdWithRetry c cmd timeout show_output v = Some (res, v')"
    from ShellCmdWithRetry_returns [OF this]
    obtain fails :: "process list" where
      "length fails < SSH_CMD_MAX_RETRY"
      "popen_calls v' = popen_calls v @ replicate (length fails + 1) cmd"
      "sleeps v' = sleeps v @
         sleep_schedule SSH_CMD_RETRY_SLEEP (DEFAULT_RETRY_BACKOFF_FACTOR c) (length fails + 1)"
      by blast
    then have "1 \<le> length fails + 1 \<and> length fails + 1 \<le> SSH_CMD_MAX_RETRY
           \<and> popen_calls v' = popen_calls v @ replicate (length fails + 1) cmd
           \<and> sleeps v' = sleeps v @
                sleep_schedule SSH_CMD_RETRY_SLEEP (DEFAULT_RETRY_BACKOFF_FACTOR c)
                  (length fails + 1)"
      by simp
    then have "\<exists>n. 1 \<le> n \<and> n \<le> SSH_CMD_MAX_RETRY
           \<and> popen_calls v' = popen_calls v @ replicate n cmd
           \<and> sleeps v' = sleeps v @
                sleep_schedule SSH_CMD_RETRY_SLEEP (DEFAULT_RETRY_BACKOFF_FACTOR c) n"
      by blast
    then show "\<exists>n. 1 \<le> n \<and> n \<le> SSH_CMD_MAX_RETRY
           \<and> popen_calls v' = popen_calls v @ replicate n cmd
           \<and> sleeps v' = sleeps v @ sleep_schedule 3 (DEFAULT_RETRY_BACKOFF_FACTOR c) n"
      by (simp add: SSH_CMD_RETRY_SLEEP_def)
  }
qed

theorem RunWithRetry_sleep_schedule_witness:
  "(\<exists>r ctx' w'.
      RunWithRetry_loop isinstance_DeviceConnectionError
        (SshLogOutput ''ssh host true'' None False)
        \<lparr>attempt_count = 1, max_retries = 4, base_sleep_seconds = 3, backoff_factor = 2\<rparr>
        (world_with [exits_with 255, exits_with 255, exits_with 0]) = Some (r, ctx', w')
      \<and> attempt_count ctx' = 3 \<and> sleeps w' = [3, 6])
   \<and> sleep_schedule 3 2 4 ! 2 = 12
   \<and> sleep_schedule 3 1 4 = [3, 3, 3]
   \<and> sorted (sleep_schedule 3 2 4)
   \<and> (\<exists>r w'. ShellCmdWithRetry example_constants ''ssh host true'' None False
          (world_with [exits_with 255, exits_with 0]) = Some (r, w')
        \<and> popen_calls w' = [''ssh host true'', ''ssh host true''] \<and> sleeps w' = [3])"
proof -
  let ?op = "SshLogOutput ''ssh host true'' None False"
  let ?ctx = "\<lparr>attempt_count = 1, max_retries = 4, base_sleep_seconds = 3,
               backoff_factor = 2\<rparr> :: RetryContext"
  let ?w = "world_with [exits_with 255, exits_with 255, exits_with 0]"
  let ?v = "world_with [exits_with 255, exits_with 0]"
  have ns: "\<forall>w r w'. ?op w = Some (r, w') \<longrightarrow> sleeps w' = sleeps w"
    using SshLogOutput_sleeps by blast
  have "pending ?w = [exits_with 255, exits_with 255] @ exits_with 0 # []"
    by (simp add: world_with_def)
  from RunWithRetry_ssh_run [OF this, of None 0 ?ctx "''ssh host true''" False]
  obtain w' where run: "RunWithRetry_loop isinstance_DeviceConnectionError ?op ?ctx ?w =
      Some (Inr (), ?ctx\<lparr>attempt_count := 3\<rparr>, w')"
    by (auto simp: numeral_3_eq_3)
  from RunWithRetry_sleep_schedule
         [where operation = ?op and m = 4 and b = 3 and f = 2 and w = ?w and w' = w'
            and retryable = isinstance_DeviceConnectionError
            and r = "Inr ()" and ctx' = "?ctx\<lparr>attempt_count := 3\<rparr>",
          THEN conjunct1, rule_format] ns run
  have "sleeps w' = sleeps ?w @ sleep_schedule 3 2 3" by simp
  then have "sleeps w' = [3, 6]"
    by (simp add: world_with_def sleep_schedule_def numeral_3_eq_3 upt_rec)
  with run have a: "\<exists>r ctx' w'. RunWithRetry_loop isinstance_DeviceConnectionError ?op ?ctx ?w =
      Some (r, ctx', w') \<and> attempt_count ctx' = 3 \<and> sleeps w' = [3, 6]"
    by auto
  have b: "sleep_schedule 3 2 4 ! 2 = 12"
    using RunWithRetry_sleep_schedule [where b = 3 and n = 4 and f = 2, THEN conjunct2]
    by simp
  have c: "sleep_schedule 3 1 4 = [3, 3, 3]"
    using RunWithRetry_sleep_schedule [where b = 3 and n = 4 and f = 1, THEN conjunct2]
    by (simp add: numeral_3_eq_3)
  have d: "sorted (sleep_schedule 3 2 4)"
    using RunWithRetry_sleep_schedule [where b = 3 and n = 4 and f = 2, THEN conjunct2]
    by simp
  have "pending ?v = [exits_with 255] @ exits_with 0 # []"
    by (simp add: world_with_def)
  from ShellCmdWithRetry_run [OF this, of None 0 example_constants "''ssh host true''" False]
  obtain w1 where w1: "ShellCmdWithRetry example_constants ''ssh host true'' None False ?v =
      Some (Inr (), w1)" "popen_calls w1 = [''ssh host true'', ''ssh host true'']"
    by (auto simp: SSH_CMD_MAX_RETRY_def world_with_def)
  from RunWithRetry_sleep_schedule
         [where c = example_constants and cmd = "''ssh host true''" and timeout = None
            and show_output = False and v = ?v and res = "Inr ()" and v' = w1,
          THEN conjunct2, THEN conjunct2, THEN conjunct2, THEN conjunct2, THEN conjunct2,
          rule_format, OF w1(1)]
  obtain n where n: "popen_calls w1 = popen_calls ?v @ replicate n ''ssh host true''"
    "sleeps w1 = sleeps ?v @ sleep_schedule 3 (DEFAULT_RETRY_BACKOFF_FACTOR example_constants) n"
    by blast
  from n(1) w1(2) have "replicate n ''ssh host true'' = [''ssh host true'', ''ssh host true'']"
    by (simp add: world_with_def)
  then have "length (replicate n ''ssh host true'') = length [''ssh host true'', ''ssh host true'']"
    by (rule arg_cong)
  then have "n = 2" by simp
  with n(2) have "sleeps w1 = [3]"
    by (simp add: world_with_def sleep_schedule_def example_constants_def)
  with w1 have e: "\<exists>r w'. ShellCmdWithRetry example_constants ''ssh host true'' None False ?v
        = Some (r, w')
        \<and> popen_calls w' = [''ssh host true'', ''ssh host true''] \<and> sleeps w' = [3]"
    by blast
  from a b c d e show ?thesis by blast
qed

section \<open>ssh.py: copying files\<close>

text \<open>
  Claim C9. With the executable found, \<open>ScpPushFile\<close> runs the file-copy base command
  followed by the local source path and then \<open>user@address:destination\<close>, \<open>ScpPullFile\<close>
  runs it followed by \<open>user@address:source\<close> and then the local destination, both through
  \<open>ShellCmdWithRetry\<close> with no timeout and no shown output; \<open>Run\<close> goes through the same
  \<open>ShellCmdWithRetry\<close>.
\<close>

theorem Scp_commands:
  "(SCP_BIN c \<noteq> SSH_BIN c \<and> find_executable w (SCP_BIN c) = Some scp_path \<longrightarrow>
      ScpPushFile c self src_file dst_file w =
        ShellCmdWithRetry c
          (scp_path @ '' -i '' @ ssh_private_key_path self @
           '' -q -o UserKnownHostsFile=/dev/null -o StrictHostKeyChecking=no'' @
           extra_suffix self @ '' '' @ src_file @ '' '' @
           gce_user self @ ''@'' @ fmt_s (ip self) @ '':'' @ dst_file)
          None False w
      \<and> ScpPullFile c self src_file dst_file w =
        ShellCmdWithRetry c
          (scp_path @ '' -i '' @ ssh_private_key_path self @
           '' -q -o UserKnownHostsFile=/dev/null -o StrictHostKeyChecking=no'' @
           extra_suffix self @ '' '' @
           gce_user self @ ''@'' @ fmt_s (ip self) @ '':'' @ src_file @ '' '' @ dst_file)
          None False w)
   \<and> (find_executable w (SSH_BIN c) = Some ssh_path \<longrightarrow>
      Run c self target_command timeout show_output w =
        ShellCmdWithRetry c
          (ssh_path @ '' -i '' @ ssh_private_key_path self @
           '' -q -o UserKnownHostsFile=/dev/null -o StrictHostKeyChecking=no'' @
           extra_suffix self @ '' -l '' @ gce_user self @ '' '' @ fmt_s (ip self) @
           '' '' @ target_command)
          timeout show_output w)"
  by (auto simp: ScpPushFile_def ScpPullFile_def Run_def GetBaseCmd_def join_base_cmd_def
        SSH_CMD_def SSH_IDENTITY_def extra_suffix_def split: option.splits)

theorem Scp_commands_witness:
  "ScpPushFile example_constants example_session ''/tmp/cvd.tar.gz'' ''/home/vsoc-01/cvd.tar.gz''
     (world_with [exits_with 0]) =
     ShellCmdWithRetry example_constants
       ''/usr/bin/scp -i /keys/id_rsa -q -o UserKnownHostsFile=/dev/null -o StrictHostKeyChecking=no /tmp/cvd.tar.gz vsoc-01@34.1.2.3:/home/vsoc-01/cvd.tar.gz''
       None False (world_with [exits_with 0])
   \<and> ScpPullFile example_constants example_session ''/var/log/kernel.log'' ''/tmp/kernel.log''
     (world_with [exits_with 0]) =
     ShellCmdWithRetry example_constants
       ''/usr/bin/scp -i /keys/id_rsa -q -o UserKnownHostsFile=/dev/null -o StrictHostKeyChecking=no vsoc-01@34.1.2.3:/var/log/kernel.log /tmp/kernel.log''
       None False (world_with [exits_with 0])
   \<and> Run example_constants example_session ''uptime'' (Some 20) True (world_with [exits_with 0]) =
     ShellCmdWithRetry example_constants
       ''/usr/bin/ssh -i /keys/id_rsa -q -o UserKnownHostsFile=/dev/null -o StrictHostKeyChecking=no -l vsoc-01 34.1.2.3 uptime''
       (Some 20) True (world_with [exits_with 0])"
  using Scp_commands [where c = example_constants and self = example_session
          and w = "world_with [exits_with 0]" and scp_path = "''/usr/bin/scp''"
          and ssh_path = "''/usr/bin/ssh''"
          and src_file = "''/tmp/cvd.tar.gz''" and dst_file = "''/home/vsoc-01/cvd.tar.gz''"
          and target_command = "''uptime''" and timeout = "Some 20" and show_output = True]
        Scp_commands [where c = example_constants and self = example_session
          and w = "world_with [exits_with 0]" and scp_path = "''/usr/bin/scp''"
          and src_file = "''/var/log/kernel.log''" and dst_file = "''/tmp/kernel.log''"]
  by (simp add: example_constants_def example_session_def world_with_def find_executable_def
        Ssh_init_def IP_init_def py_or_def truthy_str_def extra_suffix_def fmt_s_def)

section \<open>ssh.py: the session never changes\<close>

lemma perform_self:
  "perform c operation (self, w) = Some (self', w') \<Longrightarrow> self' = self"
  by (cases operation) (auto split: sum.splits)

lemma lifetime_self:
  "lifetime c operations (self, w) = Some (self', w') \<Longrightarrow> self' = self"
proof (induction operations arbitrary: w)
  case Nil
  then show ?case by simp
next
  case (Cons operation operations)
  from Cons.prems obtain s1 where s1: "perform c operation (self, w) = Some s1"
    "lifetime c operations s1 = Some (self', w')"
    by (auto split: option.splits)
  obtain self1 w1 where "s1 = (self1, w1)" by (cases s1)
  with s1 perform_self [of c operation self w self1 w1] Cons.IH [of w1]
  show ?case by simp
qed

text \<open>
  Claim C7. The constructor resolves the address once, to the internal address when
  \<open>report_internal_ip\<close> is set and to the external one otherwise, and stores the user,
  the key path and the extra tunnel arguments as given; after any sequence of the
  public operations \<open>Run\<close>, \<open>GetBaseCmd\<close>, \<open>WaitForSsh\<close>, \<open>ScpPushFile\<close> and \<open>ScpPullFile\<close>
  the four attributes of the session are what they were.
\<close>

theorem Ssh_attributes_fixed:
  "ip (Ssh_init addr user key extra report_internal_ip) =
     (if report_internal_ip then internal addr else external addr)
   \<and> gce_user (Ssh_init addr user key extra report_internal_ip) = user
   \<and> ssh_private_key_path (Ssh_init addr user key extra report_internal_ip) = key
   \<and> extra_args_ssh_tunnel (Ssh_init addr user key extra report_internal_ip) = extra
   \<and> (lifetime c operations (self, w) = Some (self', w') \<longrightarrow>
        ip self' = ip self \<and> gce_user self' = gce_user self
        \<and> ssh_private_key_path self' = ssh_private_key_path self
        \<and> extra_args_ssh_tunnel self' = extra_args_ssh_tunnel self)"
  using lifetime_self [of c operations self w self' w']
  by (auto simp: Ssh_init_def)

theorem Ssh_attributes_fixed_witness:
  "ip (Ssh_init (IP_init (Some ''34.1.2.3'') (Some ''10.0.0.2'') None) ''vsoc-01'' ''/keys/id_rsa''
         None True) = Some ''10.0.0.2''
   \<and> (\<exists>self' w'.
        lifetime example_constants
          [GetBaseCmd_op ''rsync'', WaitForSsh_op (Some 20) 4, Run_op ''false'' None False,
           ScpPushFile_op ''/tmp/a'' ''/tmp/b'']
          (example_session, world_with [exits_with 0, exits_with 1, exits_with 0])
          = Some (self', w')
        \<and> ip self' = Some ''34.1.2.3'' \<and> gce_user self' = ''vsoc-01''
        \<and> ssh_private_key_path self' = ''/keys/id_rsa'' \<and> extra_args_ssh_tunnel self' = None)"
proof -
  let ?ops = "[GetBaseCmd_op ''rsync'', WaitForSsh_op (Some 20) 4, Run_op ''false'' None False,
               ScpPushFile_op ''/tmp/a'' ''/tmp/b'']"
  let ?s = "(example_session, world_with [exits_with 0, exits_with 1, exits_with 0])"
  have "\<exists>s'. lifetime example_constants ?ops ?s = Some s'"
    by (simp add: example_constants_def example_session_def world_with_def exits_with_def
          Ssh_init_def IP_init_def py_or_def truthy_str_def fmt_s_def
          GetBaseCmd_def join_base_cmd_def find_executable_def SSH_CMD_def SSH_IDENTITY_def
          WaitForSsh_def SshCall_def Popen_def logger_info_def Timer_start_def observed_def
          Run_def ScpPushFile_def ShellCmdWithRetry_def RetryExceptionType_def
          RunWithRetry_loop.simps SshLogOutput_def logger_debug_def strip_def isspace_def
          SSH_CMD_MAX_RETRY_def SSH_CMD_RETRY_SLEEP_def eval_nat_numeral)
  then obtain self' w' where run: "lifetime example_constants ?ops ?s = Some (self', w')"
    by auto
  from Ssh_attributes_fixed
         [where addr = "IP_init (Some ''34.1.2.3'') (Some ''10.0.0.2'') None"
            and user = "''vsoc-01''" and key = "''/keys/id_rsa''" and extra = None
            and report_internal_ip = True
            and c = example_constants and operations = ?ops and self = example_session
            and w = "world_with [exits_with 0, exits_with 1, exits_with 0]"
            and self' = self' and w' = w'] run
  have "ip (Ssh_init (IP_init (Some ''34.1.2.3'') (Some ''10.0.0.2'') None) ''vsoc-01''
              ''/keys/id_rsa'' None True) = Some ''10.0.0.2''"
    and "ip self' = Some ''34.1.2.3'' \<and> gce_user self' = ''vsoc-01''
        \<and> ssh_private_key_path self' = ''/keys/id_rsa'' \<and> extra_args_ssh_tunnel self' = None"
    by (simp_all add: example_session_def Ssh_init_def IP_init_def py_or_def truthy_str_def)
  with run show ?thesis by blast
qed

end
